theory Spec2Isabelle
  imports Main "HOL-Library.Word" "HOL-Library.Monad_Syntax" "HOL-Library.AList"
begin

section \<open>JavaScript strings\<close>

text \<open>
  A JavaScript string is a sequence of UTF-16 code units; \<open>length\<close>, \<open>substring\<close> and
  \<open>+\<close> count and move code units. The model keeps exactly that: a string is a list of
  16-bit words. \<open>lit\<close> writes an ASCII literal of the source as such a list.
\<close>

type_synonym code_unit = "16 word"
type_synonym jsstring = "code_unit list"

definition lit :: "string \<Rightarrow> jsstring" where
  "lit s = map of_char s"

text \<open>
  \<open>String.prototype.trim\<close> strips WhiteSpace and LineTerminator code units (ECMAScript
  12.2 and 12.3) from both ends.
\<close>

definition isWhiteSpace :: "code_unit \<Rightarrow> bool" where
  "isWhiteSpace c \<longleftrightarrow>
     c \<in> {0x0009, 0x000A, 0x000B, 0x000C, 0x000D, 0x0020, 0x00A0, 0x1680,
          0x2028, 0x2029, 0x202F, 0x205F, 0x3000, 0xFEFF}
     \<or> (0x2000 \<le> c \<and> c \<le> 0x200A)"

definition trim :: "jsstring \<Rightarrow> jsstring" where
  "trim s = rev (dropWhile isWhiteSpace (rev (dropWhile isWhiteSpace s)))"

text \<open>\<open>s.substring(0, n)\<close> for a non-negative \<open>n\<close>.\<close>

definition substring0 :: "nat \<Rightarrow> jsstring \<Rightarrow> jsstring" where
  "substring0 n s = take n s"

text \<open>\<open>Number.prototype.toString\<close> on a non-negative integer: its decimal digits.\<close>

definition digit :: "nat \<Rightarrow> code_unit" where
  "digit d = of_nat (48 + d)"

function toString :: "nat \<Rightarrow> jsstring" where
  "toString n = (if n < 10 then [digit n] else toString (n div 10) @ [digit (n mod 10)])"
  by pat_completeness auto
termination
  by (relation "measure (\<lambda>n. n)") auto

declare toString.simps [simp del]

section \<open>Chat types (types.ts)\<close>

datatype role = User | Model

record ChatMessage =
  role :: role
  content :: jsstring

datatype model_name = Gemini_2_5_pro | Gemini_2_5_flash

text \<open>
  \<open>ChatSession\<close> of the source has the fields \<open>id\<close>, \<open>title\<close>, \<open>messages\<close> and \<open>model\<close>;
  they carry the prefix \<open>session_\<close> here because \<open>id\<close> and \<open>messages\<close> are taken.
\<close>

record ChatSession =
  session_id :: jsstring
  session_title :: jsstring
  session_messages :: "ChatMessage list"
  session_model :: model_name

section \<open>Thrown values\<close>

text \<open>
  What an SDK call, \<open>fetch\<close> or a host method rejects with is any value: \<open>null\<close> or
  \<open>undefined\<close>, or a value whose \<open>message\<close> is a string or is missing. What a function
  of this code throws is a \<open>TypeError\<close> of the runtime (a property read on \<open>null\<close> or
  \<open>undefined\<close>), an \<open>Error\<close> it builds with a message, or a rejection it lets through.
\<close>

datatype thrown = ThrownNullish | ThrownValue "jsstring option"

datatype js_error =
    TypeError
  | Error jsstring
  | Rethrown thrown

section \<open>The App component and its Chatbot\<close>

text \<open>
  \<open>handleSubmit\<close> is an async function: it runs to its first \<open>await\<close>, and is resumed
  by the stream (one resumption per chunk, one at the end or at the failure). Between two
  resumptions other callbacks of the page run: the callback of the \<open>setTimeout(..., 10)\<close>
  that \<open>handleSubmit\<close> itself registered, the handlers of the input field, of the model
  checkbox and of the sidebar, and \<open>handleSubmit\<close> again. The model is the state of the
  page while the chat feature is shown, together with the suspended calls, and one
  transition per callback.

  \<open>call\<close> holds what a suspended \<open>handleSubmit\<close> keeps in its closure and locals.
\<close>

record call =
  closure_session :: "ChatSession option"
  closure_useProModel :: bool
  newMessages :: "ChatMessage list"
  currentInput :: jsstring
  fullResponse :: jsstring

datatype callback = OnUpdate ChatSession | OnNewSession ChatSession

text \<open>
  \<open>chatHistory\<close> and \<open>activeChatId\<close> are the \<open>useState\<close> cells of \<open>App\<close>; \<open>chat\<close> to
  \<open>useProModel\<close> are those of \<open>Chatbot\<close> (\<open>chat\<close> records whether the handle is
  non-null). \<open>timers\<close> counts the registered and not yet fired timeouts. \<open>running\<close>
  holds the calls of \<open>handleSubmit\<close> in the order they were made, \<open>None\<close> for one that
  has ended; a call is known by its position. \<open>emitted\<close> lists the calls made so far to
  \<open>onUpdate\<close> and \<open>onNewSession\<close>.
\<close>

record App =
  chatHistory :: "ChatSession list"
  activeChatId :: "jsstring option"
  chat :: bool
  messages :: "ChatMessage list"
  input :: jsstring
  isLoading :: bool
  error :: "jsstring option"
  useProModel :: bool
  timers :: nat
  running :: "call option list"
  emitted :: "callback list"

text \<open>
  The \<open>session\<close> prop of the Chatbot (line 920):
  \<open>chatHistory.find(session => session.id === activeChatId) || null\<close>.
\<close>

definition session :: "App \<Rightarrow> ChatSession option" where
  "session st =
     (case activeChatId st of
        None \<Rightarrow> None
      | Some i \<Rightarrow> find (\<lambda>s. session_id s = i) (chatHistory st))"

definition callAt :: "App \<Rightarrow> nat \<Rightarrow> call option" where
  "callAt st k = (if k < length (running st) then running st ! k else None)"

text \<open>
  The callbacks: the form is submitted; the input field changes (\<open>setInput\<close>); a timeout
  fires; the stream of a call yields a chunk (with its \<open>text\<close>, which the SDK leaves
  \<open>undefined\<close> for a chunk without text); the stream of a call ends (with the reading of
  \<open>Date.now()\<close> taken then); \<open>sendMessageStream\<close> or the iteration of a call throws
  (with what was thrown); the model checkbox changes; the sidebar's new chat button, a
  chat of the list, or its delete button is clicked.
\<close>

datatype event =
    Submit
  | SetInput jsstring
  | TimerFired
  | Chunk nat "jsstring option"
  | StreamDone nat nat
  | StreamError nat thrown
  | ModelChange bool
  | NewChat
  | SelectChat jsstring
  | DeleteChat jsstring

text \<open>The message shown when the thrown value has no (or an empty) \<open>message\<close>.\<close>

definition unexpectedErrorMessage :: jsstring where
  "unexpectedErrorMessage =
     [0x062E, 0x0637, 0x0627, 0x06CC, 0x0020, 0x063A, 0x06CC, 0x0631, 0x0645, 0x0646,
      0x062A, 0x0638, 0x0631, 0x0647, 0x200C, 0x0627, 0x06CC, 0x0020, 0x0631, 0x062E,
      0x0020, 0x062F, 0x0627, 0x062F, 0x002E]"

definition chatInitErrorMessage :: jsstring where
  "chatInitErrorMessage =
     [0x062E, 0x0637, 0x0627, 0x0020, 0x062F, 0x0631, 0x0020, 0x0631, 0x0627, 0x0647,
      0x200C, 0x0627, 0x0646, 0x062F, 0x0627, 0x0632, 0x06CC, 0x0020, 0x0686, 0x062A,
      0x002E]"

subsection \<open>The Chatbot's effect on its prop\<close>

text \<open>
  Lines 139 to 159, \<open>initializeChat\<close>. It has no \<open>await\<close>, so it runs in one piece.
  \<open>createChat model history\<close> says whether \<open>new GoogleGenAI\<close> and \<open>ai.chats.create\<close>
  succeed; where they throw, the \<open>catch\<close> block sets the error. The \<open>finally\<close> block
  clears \<open>isLoading\<close> either way.
\<close>

definition initializeChat ::
    "(model_name \<Rightarrow> ChatMessage list \<Rightarrow> bool) \<Rightarrow> model_name \<Rightarrow> ChatMessage list \<Rightarrow> App \<Rightarrow> App" where
  "initializeChat createChat model history st =
     (if createChat model history
      then st\<lparr>chat := True, error := None, isLoading := False\<rparr>
      else st\<lparr>error := Some chatInitErrorMessage, isLoading := False\<rparr>)"

text \<open>Lines 127 to 131, the effect that React runs when the \<open>session\<close> prop has changed.\<close>

definition sessionEffect :: "(model_name \<Rightarrow> ChatMessage list \<Rightarrow> bool) \<Rightarrow> App \<Rightarrow> App" where
  "sessionEffect createChat st =
     (let history = (case session st of None \<Rightarrow> [] | Some s \<Rightarrow> session_messages s);
          model = (case session st of None \<Rightarrow> Gemini_2_5_flash | Some s \<Rightarrow> session_model s)
      in initializeChat createChat model history
           (st\<lparr>messages := history, useProModel := (model = Gemini_2_5_pro)\<rparr>))"

subsection \<open>The handlers of App\<close>

text \<open>
  Lines 892 to 918. Each handler is followed by the effect when it has changed the
  \<open>session\<close> prop, that is when \<open>find\<close> now returns another object (or \<open>null\<close> in place
  of an object): the object passed to \<open>handleUpdateSession\<close> or \<open>handleAddNewSession\<close>
  is a new one, the sessions of two different ids are two objects.
\<close>

definition handleUpdateSession ::
    "(model_name \<Rightarrow> ChatMessage list \<Rightarrow> bool) \<Rightarrow> ChatSession \<Rightarrow> App \<Rightarrow> App" where
  "handleUpdateSession createChat updatedSession st =
     (let st' = st\<lparr>chatHistory :=
                   map (\<lambda>s. if session_id s = session_id updatedSession then updatedSession else s)
                     (chatHistory st)\<rparr>
      in case session st of
           None \<Rightarrow> st'
         | Some s \<Rightarrow>
             if session_id s = session_id updatedSession then sessionEffect createChat st' else st')"

definition handleAddNewSession ::
    "(model_name \<Rightarrow> ChatMessage list \<Rightarrow> bool) \<Rightarrow> ChatSession \<Rightarrow> App \<Rightarrow> App" where
  "handleAddNewSession createChat newSession st =
     sessionEffect createChat
       (st\<lparr>chatHistory := newSession # chatHistory st,
           activeChatId := Some (session_id newSession)\<rparr>)"

definition handleNewChat :: "(model_name \<Rightarrow> ChatMessage list \<Rightarrow> bool) \<Rightarrow> App \<Rightarrow> App" where
  "handleNewChat createChat st =
     (let st' = st\<lparr>activeChatId := None\<rparr>
      in if session st = None then st' else sessionEffect createChat st')"

definition handleSelectChat ::
    "(model_name \<Rightarrow> ChatMessage list \<Rightarrow> bool) \<Rightarrow> jsstring \<Rightarrow> App \<Rightarrow> App" where
  "handleSelectChat createChat i st =
     (let st' = st\<lparr>activeChatId := Some i\<rparr>
      in if activeChatId st = Some i \<or> (session st = None \<and> session st' = None) then st'
         else sessionEffect createChat st')"

definition handleDeleteChat ::
    "(model_name \<Rightarrow> ChatMessage list \<Rightarrow> bool) \<Rightarrow> jsstring \<Rightarrow> App \<Rightarrow> App" where
  "handleDeleteChat createChat i st =
     (let st' = st\<lparr>chatHistory := filter (\<lambda>s. session_id s \<noteq> i) (chatHistory st),
                    activeChatId := (if activeChatId st = Some i then None else activeChatId st)\<rparr>
      in if activeChatId st = Some i \<and> session st \<noteq> None then sessionEffect createChat st'
         else st')"

subsection \<open>The handlers of the Chatbot\<close>

text \<open>Lines 161 to 168.\<close>

definition handleModelChange ::
    "(model_name \<Rightarrow> ChatMessage list \<Rightarrow> bool) \<Rightarrow> bool \<Rightarrow> App \<Rightarrow> App" where
  "handleModelChange createChat isPro st =
     (let newModel = (if isPro then Gemini_2_5_pro else Gemini_2_5_flash);
          st1 = initializeChat createChat newModel (messages st) (st\<lparr>useProModel := isPro\<rparr>)
      in case session st of
           None \<Rightarrow> st1
         | Some s \<Rightarrow>
             let updated = s\<lparr>session_model := newModel\<rparr>
             in handleUpdateSession createChat updated
                  (st1\<lparr>emitted := emitted st1 @ [OnUpdate updated]\<rparr>))"

text \<open>
  Lines 170 to 183: the guard, the optimistic user turn, and the registration of the
  timeout that will append the empty model turn.
\<close>

definition handleSubmit :: "App \<Rightarrow> App" where
  "handleSubmit st =
     (if trim (input st) = [] \<or> isLoading st \<or> \<not> chat st then st
      else
        let userMessage = \<lparr>role = User, content = input st\<rparr>;
            new = messages st @ [userMessage]
        in st\<lparr>messages := new, input := [], isLoading := True, error := None,
               timers := Suc (timers st),
               running := running st @
                 [Some \<lparr>closure_session = session st,
                        closure_useProModel = useProModel st,
                        newMessages = new, currentInput = input st,
                        fullResponse = []\<rparr>]\<rparr>)"

text \<open>Line 183, the timeout's callback: \<open>prev => [...prev, {role: 'model', content: ''}]\<close>.\<close>

definition onTimer :: "App \<Rightarrow> App" where
  "onTimer st =
     (if timers st = 0 then st
      else st\<lparr>messages := messages st @ [\<lparr>role = Model, content = []\<rparr>],
               timers := timers st - 1\<rparr>)"

text \<open>What \<open>fullResponse += chunkText\<close> appends: the text, or the text \<open>undefined\<close>.\<close>

definition appendedText :: "jsstring option \<Rightarrow> jsstring" where
  "appendedText chunkText = (case chunkText of None \<Rightarrow> lit ''undefined'' | Some t \<Rightarrow> t)"

text \<open>
  Lines 189 to 197, one iteration of the \<open>for await\<close> loop of the call \<open>k\<close>.
  \<open>prev[prev.length - 1]\<close> of an empty array is \<open>undefined\<close> and reading its \<open>role\<close>
  throws a TypeError that nothing catches: the result \<open>None\<close>.
\<close>

definition onChunk :: "App \<Rightarrow> nat \<Rightarrow> jsstring option \<Rightarrow> App option" where
  "onChunk st k chunkText =
     (case callAt st k of
        None \<Rightarrow> Some st
      | Some c \<Rightarrow>
          let full = fullResponse c @ appendedText chunkText in
          (case messages st of
             [] \<Rightarrow> None
           | _ # _ \<Rightarrow>
               let lastMessage = last (messages st) in
               Some (st\<lparr>running := (running st)[k := Some (c\<lparr>fullResponse := full\<rparr>)],
                        messages :=
                          (if role lastMessage = Model
                           then butlast (messages st) @ [lastMessage\<lparr>content := full\<rparr>]
                           else messages st)\<rparr>)))"

text \<open>
  Lines 200 to 212 and the \<open>finally\<close> block, for the call \<open>k\<close>: the call to \<open>onUpdate\<close>
  or \<open>onNewSession\<close>, which are \<open>handleUpdateSession\<close> and \<open>handleAddNewSession\<close>.
\<close>

definition newSessionTitle :: "jsstring \<Rightarrow> jsstring" where
  "newSessionTitle currentInput' =
     substring0 30 currentInput' @ (if length currentInput' > 30 then lit ''...'' else [])"

definition onStreamDone ::
    "(model_name \<Rightarrow> ChatMessage list \<Rightarrow> bool) \<Rightarrow> App \<Rightarrow> nat \<Rightarrow> nat \<Rightarrow> App" where
  "onStreamDone createChat st k now =
     (case callAt st k of
        None \<Rightarrow> st
      | Some c \<Rightarrow>
          let updatedMessages = newMessages c @ [\<lparr>role = Model, content = fullResponse c\<rparr>];
              st1 = st\<lparr>running := (running st)[k := None]\<rparr>;
              st2 = (case closure_session c of
                       Some s \<Rightarrow>
                         let updated = s\<lparr>session_messages := updatedMessages\<rparr>
                         in handleUpdateSession createChat updated
                              (st1\<lparr>emitted := emitted st1 @ [OnUpdate updated]\<rparr>)
                     | None \<Rightarrow>
                         let newSession =
                               \<lparr>session_id = toString now,
                                session_title = newSessionTitle (currentInput c),
                                session_messages = updatedMessages,
                                session_model = (if closure_useProModel c then Gemini_2_5_pro
                                                 else Gemini_2_5_flash)\<rparr>
                         in handleAddNewSession createChat newSession
                              (st1\<lparr>emitted := emitted st1 @ [OnNewSession newSession]\<rparr>))
          in st2\<lparr>isLoading := False\<rparr>)"

text \<open>
  Lines 214 to 219: the \<open>catch\<close> and \<open>finally\<close> blocks of the call \<open>k\<close>.
  \<open>prev.slice(0, -2)\<close> drops the last two elements (all of them when there are fewer
  than two). When what was thrown is \<open>null\<close> or \<open>undefined\<close>, reading its \<open>message\<close>
  throws inside the \<open>catch\<close> block: no error is set, nothing is rolled back, and only the
  \<open>finally\<close> block runs.
\<close>

definition onStreamError :: "App \<Rightarrow> nat \<Rightarrow> thrown \<Rightarrow> App" where
  "onStreamError st k err =
     (case callAt st k of
        None \<Rightarrow> st
      | Some c \<Rightarrow>
          (case err of
             ThrownNullish \<Rightarrow>
               st\<lparr>isLoading := False, running := (running st)[k := None]\<rparr>
           | ThrownValue message \<Rightarrow>
               st\<lparr>error := Some (case message of
                                    None \<Rightarrow> unexpectedErrorMessage
                                  | Some m \<Rightarrow> if m = [] then unexpectedErrorMessage else m),
                  messages := take (length (messages st) - 2) (messages st),
                  isLoading := False, running := (running st)[k := None]\<rparr>))"

subsection \<open>The transitions\<close>

text \<open>
  One callback, and a sequence of them. \<open>None\<close> is the uncaught TypeError of \<open>onChunk\<close>;
  the callbacks of a stream find nothing to resume when their call has ended.
\<close>

fun step :: "(model_name \<Rightarrow> ChatMessage list \<Rightarrow> bool) \<Rightarrow> App \<Rightarrow> event \<Rightarrow> App option" where
  "step createChat st Submit = Some (handleSubmit st)"
| "step createChat st (SetInput v) = Some (st\<lparr>input := v\<rparr>)"
| "step createChat st TimerFired = Some (onTimer st)"
| "step createChat st (Chunk k chunkText) = onChunk st k chunkText"
| "step createChat st (StreamDone k now) = Some (onStreamDone createChat st k now)"
| "step createChat st (StreamError k err) = Some (onStreamError st k err)"
| "step createChat st (ModelChange isPro) = Some (handleModelChange createChat isPro st)"
| "step createChat st NewChat = Some (handleNewChat createChat st)"
| "step createChat st (SelectChat i) = Some (handleSelectChat createChat i st)"
| "step createChat st (DeleteChat i) = Some (handleDeleteChat createChat i st)"

fun run :: "(model_name \<Rightarrow> ChatMessage list \<Rightarrow> bool) \<Rightarrow> App \<Rightarrow> event list \<Rightarrow> App option" where
  "run createChat st [] = Some st"
| "run createChat st (e # es) =
     (case step createChat st e of None \<Rightarrow> None | Some st' \<Rightarrow> run createChat st' es)"

text \<open>
  What the properties below let happen between a submission and the end of its stream:
  chunks of that call, the timeout, and typing.
\<close>

fun midstream :: "nat \<Rightarrow> event \<Rightarrow> bool" where
  "midstream k (Chunk k' _) = (k' = k)"
| "midstream k TimerFired = True"
| "midstream k (SetInput _) = True"
| "midstream k _ = False"

text \<open>What the chunks among the events append, in order.\<close>

fun fragments :: "event list \<Rightarrow> jsstring list" where
  "fragments [] = []"
| "fragments (Chunk _ t # es) = appendedText t # fragments es"
| "fragments (_ # es) = fragments es"

text \<open>The text fragments that the chunks among the events carry, in order.\<close>

fun streamedTexts :: "event list \<Rightarrow> jsstring list" where
  "streamedTexts [] = []"
| "streamedTexts (Chunk _ (Some t) # es) = t # streamedTexts es"
| "streamedTexts (_ # es) = streamedTexts es"

text \<open>The session handed to \<open>onUpdate\<close> or \<open>onNewSession\<close>.\<close>

fun callbackSession :: "callback \<Rightarrow> ChatSession" where
  "callbackSession (OnUpdate s) = s"
| "callbackSession (OnNewSession s) = s"

section \<open>The gateway (services/geminiService)\<close>

text \<open>
  A gateway function awaits the provider and may throw. What the provider answers (its
  response, or what it rejected with) is an argument of each function.

  What a function does besides computing its result, in order: it sleeps (milliseconds),
  asks the provider for the operation's status, asks the host whether a key is selected,
  opens the key selection dialog.
\<close>

datatype action = Sleep nat | Poll | HasSelectedApiKey | OpenSelectKey

text \<open>The truthiness of a string that may be \<open>undefined\<close>.\<close>

definition truthyString :: "jsstring option \<Rightarrow> bool" where
  "truthyString v = (case v of None \<Rightarrow> False | Some s \<Rightarrow> s \<noteq> [])"

definition apiKeyMissingMessage :: jsstring where
  "apiKeyMissingMessage = lit ''API_KEY environment variable is not set''"

text \<open>
  What \<open>getApiKey\<close> reads: \<open>process.env.API_KEY\<close> at its first test (line 5) and at its
  second (lines 12 and 15), and \<open>window.aistudio\<close>, absent or an object whose two methods
  answer or reject.
\<close>

record aistudio =
  hasSelectedApiKey :: "thrown + bool"
  openSelectKey :: "thrown option"

record key_env =
  key_at_first_test :: "jsstring option"
  window_aistudio :: "aistudio option"
  key_at_second_test :: "jsstring option"

text \<open>Lines 5 to 11: what is thrown there, if anything, and what was done.\<close>

definition selectKey :: "key_env \<Rightarrow> js_error option \<times> action list" where
  "selectKey env =
     (if truthyString (key_at_first_test env) then (None, [])
      else
        (case window_aistudio env of
           None \<Rightarrow> (None, [])
         | Some a \<Rightarrow>
             (case hasSelectedApiKey a of
                Inl e \<Rightarrow> (Some (Rethrown e), [HasSelectedApiKey])
              | Inr hasKey \<Rightarrow>
                  if hasKey then (None, [HasSelectedApiKey])
                  else
                    (case openSelectKey a of
                       Some e \<Rightarrow> (Some (Rethrown e), [HasSelectedApiKey, OpenSelectKey])
                     | None \<Rightarrow> (None, [HasSelectedApiKey, OpenSelectKey])))))"

text \<open>\<open>getApiKey\<close>: the key or what is thrown, and what was done.\<close>

definition getApiKey :: "key_env \<Rightarrow> (js_error + jsstring) \<times> action list" where
  "getApiKey env =
     (case fst (selectKey env) of
        Some e \<Rightarrow> (Inl e, snd (selectKey env))
      | None \<Rightarrow>
          (case key_at_second_test env of
             None \<Rightarrow> (Inl (Error apiKeyMissingMessage), snd (selectKey env))
           | Some k \<Rightarrow>
               if k = [] then (Inl (Error apiKeyMissingMessage), snd (selectKey env))
               else (Inr k, snd (selectKey env))))"

record ImageData =
  base64 :: jsstring
  mimeType :: jsstring

text \<open>
  The provider's response, as far as the code reads it. Every field that the code reaches
  through \<open>?.\<close> or tests for truthiness is an option.
\<close>

record Blob =
  blob_data :: jsstring
  blob_mimeType :: jsstring

record Part =
  inlineData :: "Blob option"
  part_text :: "jsstring option"

record Content =
  parts :: "Part list option"

record GroundingChunkWeb =
  web_uri :: "jsstring option"
  web_title :: "jsstring option"

record GroundingChunk =
  web :: "GroundingChunkWeb option"

record GroundingMetadata =
  groundingChunks :: "GroundingChunk list option"

record Candidate =
  candidate_content :: "Content option"
  groundingMetadata :: "GroundingMetadata option"

record GenerateContentResponse =
  candidates :: "Candidate list option"
  response_text :: jsstring

definition noImageMessage :: jsstring where
  "noImageMessage =
     [0x0647, 0x06CC, 0x0686, 0x0020, 0x062A, 0x0635, 0x0648, 0x06CC, 0x0631, 0x06CC,
      0x0020, 0x062F, 0x0631, 0x0020, 0x067E, 0x0627, 0x0633, 0x062E, 0x0020, 0x062A,
      0x0648, 0x0644, 0x06CC, 0x062F, 0x0020, 0x0646, 0x0634, 0x062F, 0x002E]"

text \<open>\<open>response.candidates?.[0]\<close>\<close>

definition firstCandidate :: "GenerateContentResponse \<Rightarrow> Candidate option" where
  "firstCandidate response =
     (case candidates response of None \<Rightarrow> None | Some [] \<Rightarrow> None | Some (c # _) \<Rightarrow> Some c)"

text \<open>\<open>response.candidates?.[0]?.content?.parts || []\<close>\<close>

definition responseParts :: "GenerateContentResponse \<Rightarrow> Part list" where
  "responseParts response =
     (case firstCandidate response of
        None \<Rightarrow> []
      | Some c \<Rightarrow>
          (case candidate_content c of
             None \<Rightarrow> []
           | Some ct \<Rightarrow> (case parts ct of None \<Rightarrow> [] | Some ps \<Rightarrow> ps)))"

text \<open>Lines 37 to 42 of the service: the loop over the parts and the throw after it.\<close>

fun firstInlineData :: "Part list \<Rightarrow> js_error + ImageData" where
  "firstInlineData [] = Inl (Error noImageMessage)"
| "firstInlineData (part # rest) =
     (case inlineData part of
        Some b \<Rightarrow> Inr \<lparr>base64 = blob_data b, mimeType = blob_mimeType b\<rparr>
      | None \<Rightarrow> firstInlineData rest)"

definition editImageWithPrompt ::
    "key_env \<Rightarrow> thrown + GenerateContentResponse \<Rightarrow> js_error + ImageData" where
  "editImageWithPrompt env generateContent =
     (case fst (getApiKey env) of
        Inl e \<Rightarrow> Inl e
      | Inr _ \<Rightarrow>
          (case generateContent of
             Inl e \<Rightarrow> Inl (Rethrown e)
           | Inr response \<Rightarrow> firstInlineData (responseParts response)))"

record Image =
  imageBytes :: "jsstring option"

record GeneratedImage =
  image_field :: "Image option"

record GenerateImagesResponse =
  generatedImages :: "GeneratedImage list option"

text \<open>
  \<open>response.generatedImages[0].image.imageBytes\<close> has no \<open>?.\<close>: each of the three reads
  throws a TypeError when what it reads from is \<open>undefined\<close>.
\<close>

definition generateImageWithPrompt ::
    "key_env \<Rightarrow> thrown + GenerateImagesResponse \<Rightarrow> js_error + ImageData" where
  "generateImageWithPrompt env generateImages =
     (case fst (getApiKey env) of
        Inl e \<Rightarrow> Inl e
      | Inr _ \<Rightarrow>
          (case generateImages of
             Inl e \<Rightarrow> Inl (Rethrown e)
           | Inr response \<Rightarrow>
               (case generatedImages response of
                  None \<Rightarrow> Inl TypeError
                | Some [] \<Rightarrow> Inl TypeError
                | Some (g # _) \<Rightarrow>
                    (case image_field g of
                       None \<Rightarrow> Inl TypeError
                     | Some img \<Rightarrow>
                         (case imageBytes img of
                            None \<Rightarrow> Inl (Error noImageMessage)
                          | Some base64ImageBytes \<Rightarrow>
                              if base64ImageBytes = [] then Inl (Error noImageMessage)
                              else Inr \<lparr>base64 = base64ImageBytes,
                                        mimeType = lit ''image/png''\<rparr>)))))"

subsection \<open>searchWithGoogle\<close>

text \<open>
  The mapped objects hold whatever \<open>chunk.web?.uri\<close> and \<open>chunk.web?.title\<close> gave,
  \<open>undefined\<close> included, so the fields of \<open>Source\<close> are options here.
\<close>

record Source =
  uri :: "jsstring option"
  title :: "jsstring option"

definition chunkSource :: "GroundingChunk \<Rightarrow> Source" where
  "chunkSource chunk =
     \<lparr>uri = (case web chunk of None \<Rightarrow> None | Some w \<Rightarrow> web_uri w),
      title = (case web chunk of None \<Rightarrow> None | Some w \<Rightarrow> web_title w)\<rparr>"

definition responseGroundingChunks :: "GenerateContentResponse \<Rightarrow> GroundingChunk list option" where
  "responseGroundingChunks response =
     (case firstCandidate response of
        None \<Rightarrow> None
      | Some c \<Rightarrow>
          (case groundingMetadata c of None \<Rightarrow> None | Some gm \<Rightarrow> groundingChunks gm))"

definition responseSources :: "GenerateContentResponse \<Rightarrow> Source list" where
  "responseSources response =
     (case responseGroundingChunks response of
        None \<Rightarrow> []
      | Some chunks \<Rightarrow>
          filter (\<lambda>s. truthyString (uri s) \<and> truthyString (title s)) (map chunkSource chunks))"

definition searchWithGoogle ::
    "key_env \<Rightarrow> thrown + GenerateContentResponse
       \<Rightarrow> js_error + (jsstring \<times> Source list)" where
  "searchWithGoogle env generateContent =
     (case fst (getApiKey env) of
        Inl e \<Rightarrow> Inl e
      | Inr _ \<Rightarrow>
          (case generateContent of
             Inl e \<Rightarrow> Inl (Rethrown e)
           | Inr response \<Rightarrow> Inr (response_text response, responseSources response)))"

text \<open>
  The citation list in the words of the specification: the provider's entries that have
  both a uri and a title (a missing one is absent or empty), in their order.
\<close>

fun spec_citations :: "GroundingChunk list \<Rightarrow> Source list" where
  "spec_citations [] = []"
| "spec_citations (chunk # rest) =
     (case web chunk of
        None \<Rightarrow> spec_citations rest
      | Some w \<Rightarrow>
          (case (web_uri w, web_title w) of
             (Some u, Some t) \<Rightarrow>
               if u \<noteq> [] \<and> t \<noteq> [] then \<lparr>uri = Some u, title = Some t\<rparr> # spec_citations rest
               else spec_citations rest
           | _ \<Rightarrow> spec_citations rest))"

definition providerCitations :: "GenerateContentResponse \<Rightarrow> GroundingChunk list" where
  "providerCitations response =
     (case responseGroundingChunks response of None \<Rightarrow> [] | Some chunks \<Rightarrow> chunks)"

subsection \<open>animateImageWithVeo\<close>

record Video =
  video_uri :: "jsstring option"

record GeneratedVideo =
  video :: "Video option"

record GenerateVideosResponse =
  generatedVideos :: "GeneratedVideo list option"

record VideoOperation =
  op_done :: bool
  op_response :: "GenerateVideosResponse option"

text \<open>\<open>operation.response?.generatedVideos?.[0]?.video?.uri\<close>\<close>

definition downloadLink :: "VideoOperation \<Rightarrow> jsstring option" where
  "downloadLink operation =
     (case op_response operation of
        None \<Rightarrow> None
      | Some r \<Rightarrow>
          (case generatedVideos r of
             None \<Rightarrow> None
           | Some [] \<Rightarrow> None
           | Some (g # _) \<Rightarrow> (case video g of None \<Rightarrow> None | Some v \<Rightarrow> video_uri v)))"

text \<open>\<open>s.includes(t)\<close>: \<open>t\<close> occurs in \<open>s\<close> as a contiguous run.\<close>

fun includesText :: "jsstring \<Rightarrow> jsstring \<Rightarrow> bool" where
  "includesText [] t = (t = [])"
| "includesText (c # s) t = (take (length t) (c # s) = t \<or> includesText s t)"

definition invalidKeyMessage :: jsstring where
  "invalidKeyMessage =
     [0x06A9, 0x0644, 0x06CC, 0x062F, 0x0020, 0x0041, 0x0050, 0x0049, 0x0020, 0x0646,
      0x0627, 0x0645, 0x0639, 0x062A, 0x0628, 0x0631, 0x0020, 0x0627, 0x0633, 0x062A,
      0x002E, 0x0020, 0x0644, 0x0637, 0x0641, 0x0627, 0x064B, 0x0020, 0x062F, 0x0648,
      0x0628, 0x0627, 0x0631, 0x0647, 0x0020, 0x0627, 0x0646, 0x062A, 0x062E, 0x0627,
      0x0628, 0x0020, 0x06A9, 0x0646, 0x06CC, 0x062F, 0x0020, 0x0648, 0x0020, 0x0645,
      0x062C, 0x062F, 0x062F, 0x0627, 0x064B, 0x0020, 0x062A, 0x0644, 0x0627, 0x0634,
      0x0020, 0x0646, 0x0645, 0x0627, 0x06CC, 0x06CC, 0x062F, 0x002E]"

definition videoFailedMessage :: jsstring where
  "videoFailedMessage =
     [0x0633, 0x0627, 0x062E, 0x062A, 0x0020, 0x0648, 0x06CC, 0x062F, 0x06CC, 0x0648,
      0x0020, 0x0628, 0x0627, 0x0020, 0x0634, 0x06A9, 0x0633, 0x062A, 0x0020, 0x0645,
      0x0648, 0x0627, 0x062C, 0x0647, 0x0020, 0x0634, 0x062F, 0x002E]"

text \<open>
  Lines 118 to 125, the \<open>catch\<close> block: what is thrown on, and what was done first.
  Reading \<open>message\<close> of \<open>null\<close> or \<open>undefined\<close> throws a TypeError; a value without a
  \<open>message\<close> is thrown on as it is; the dialog is opened where \<open>window.aistudio\<close> exists,
  and what it rejects with is thrown instead.
\<close>

definition pollFailure :: "key_env \<Rightarrow> thrown \<Rightarrow> js_error \<times> action list" where
  "pollFailure env e =
     (case e of
        ThrownNullish \<Rightarrow> (TypeError, [])
      | ThrownValue None \<Rightarrow> (Rethrown e, [])
      | ThrownValue (Some m) \<Rightarrow>
          if includesText m (lit ''Requested entity was not found'')
          then
            (case window_aistudio env of
               None \<Rightarrow> (Error invalidKeyMessage, [])
             | Some a \<Rightarrow>
                 (case openSelectKey a of
                    Some e' \<Rightarrow> (Rethrown e', [OpenSelectKey])
                  | None \<Rightarrow> (Error invalidKeyMessage, [OpenSelectKey])))
          else (Rethrown e, []))"

text \<open>
  Lines 114 to 126, the \<open>while\<close> loop. \<open>getVideosOperation n\<close> is the provider's answer
  to the poll number \<open>n\<close> (from 0). Nothing bounds the loop: where it never ends the value
  is \<open>None\<close>.
\<close>

partial_function (option) pollLoop ::
    "key_env \<Rightarrow> (nat \<Rightarrow> thrown + VideoOperation) \<Rightarrow> VideoOperation \<Rightarrow> nat \<Rightarrow> action list
       \<Rightarrow> ((js_error + VideoOperation) \<times> action list) option" where
  "pollLoop env getVideosOperation operation n trace =
     (if op_done operation then Some (Inr operation, trace)
      else
        (case getVideosOperation n of
           Inl e \<Rightarrow>
             Some (Inl (fst (pollFailure env e)),
                   trace @ [Sleep 5000, Poll] @ snd (pollFailure env e))
         | Inr operation' \<Rightarrow>
             pollLoop env getVideosOperation operation' (Suc n) (trace @ [Sleep 5000, Poll])))"

text \<open>
  \<open>fetchObjectURL\<close> stands for the last three lines: fetch the link, read the blob, make an
  object URL for it; it answers the URL or what was rejected with.
\<close>

definition animateImageWithVeo ::
    "key_env \<Rightarrow> thrown + VideoOperation \<Rightarrow> (nat \<Rightarrow> thrown + VideoOperation)
       \<Rightarrow> (jsstring \<Rightarrow> thrown + jsstring)
       \<Rightarrow> ((js_error + jsstring) \<times> action list) option" where
  "animateImageWithVeo env generateVideos getVideosOperation fetchObjectURL =
     (case getApiKey env of
        (Inl e, acts) \<Rightarrow> Some (Inl e, acts)
      | (Inr apiKey, acts) \<Rightarrow>
          (case generateVideos of
             Inl e \<Rightarrow> Some (Inl (Rethrown e), acts)
           | Inr operation0 \<Rightarrow>
               (case pollLoop env getVideosOperation operation0 0 acts of
                  None \<Rightarrow> None
                | Some (Inl e, trace) \<Rightarrow> Some (Inl e, trace)
                | Some (Inr operation, trace) \<Rightarrow>
                    (case downloadLink operation of
                       None \<Rightarrow> Some (Inl (Error videoFailedMessage), trace)
                     | Some link \<Rightarrow>
                         if link = [] then Some (Inl (Error videoFailedMessage), trace)
                         else
                           (case fetchObjectURL (link @ lit ''&key='' @ apiKey) of
                              Inl e \<Rightarrow> Some (Inl (Rethrown e), trace)
                            | Inr url \<Rightarrow> Some (Inr url, trace))))))"

section \<open>The ImageUploader component\<close>

text \<open>
  A selected file is its content type and its bytes, the bytes in their base64 spelling.
  \<open>FileReader.readAsDataURL\<close> hands \<open>data:\<close>, the type (\<open>application/octet-stream\<close> for
  an unknown one), \<open>;base64,\<close> and the base64 text to \<open>onloadend\<close>; a failed read hands
  \<open>null\<close>. The handler takes the reader as an argument, \<open>readAsDataURL\<close> is the reader of
  a read that succeeds.
\<close>

record File =
  file_type :: jsstring
  file_base64 :: jsstring

definition readAsDataURL :: "File \<Rightarrow> jsstring option" where
  "readAsDataURL file =
     Some (lit ''data:''
           @ (if file_type file = [] then lit ''application/octet-stream'' else file_type file)
           @ lit '';base64,'' @ file_base64 file)"

text \<open>The \<open>accept\<close> attribute of the file input (line 83).\<close>

definition acceptedTypes :: "jsstring list" where
  "acceptedTypes = [lit ''image/png'', lit ''image/jpeg'', lit ''image/webp'']"

text \<open>
  The regular expression \<open>/^data:(image\/\w+);base64,(.*)$/\<close>: \<open>\w\<close> is a letter, a digit
  or the underscore, \<open>.\<close> is any code unit but a line terminator, and without the \<open>m\<close>
  flag \<open>$\<close> is the end of the string. \<open>\w+\<close> is greedy, and what follows it starts with
  \<open>;\<close>, so the word is the longest run of word characters.
\<close>

definition isWordChar :: "code_unit \<Rightarrow> bool" where
  "isWordChar c \<longleftrightarrow>
     (0x30 \<le> c \<and> c \<le> 0x39) \<or> (0x41 \<le> c \<and> c \<le> 0x5A) \<or> c = 0x5F \<or> (0x61 \<le> c \<and> c \<le> 0x7A)"

definition isLineTerminator :: "code_unit \<Rightarrow> bool" where
  "isLineTerminator c \<longleftrightarrow> c \<in> {0x000A, 0x000D, 0x2028, 0x2029}"

fun stripPrefix :: "jsstring \<Rightarrow> jsstring \<Rightarrow> jsstring option" where
  "stripPrefix [] s = Some s"
| "stripPrefix (p # ps) [] = None"
| "stripPrefix (p # ps) (c # cs) = (if p = c then stripPrefix ps cs else None)"

definition matchDataUrl :: "jsstring \<Rightarrow> (jsstring \<times> jsstring) option" where
  "matchDataUrl s =
     (case stripPrefix (lit ''data:image/'') s of
        None \<Rightarrow> None
      | Some r \<Rightarrow>
          let w = takeWhile isWordChar r in
          if w = [] then None
          else
            (case stripPrefix (lit '';base64,'') (dropWhile isWordChar r) of
               None \<Rightarrow> None
             | Some rest \<Rightarrow>
                 if list_ex isLineTerminator rest then None
                 else Some (lit ''image/'' @ w, rest)))"

definition invalidFormatMessage :: jsstring where
  "invalidFormatMessage =
     [0x0641, 0x0631, 0x0645, 0x062A, 0x0020, 0x0641, 0x0627, 0x06CC, 0x0644, 0x0020,
      0x0646, 0x0627, 0x0645, 0x0639, 0x062A, 0x0628, 0x0631, 0x0020, 0x0627, 0x0633,
      0x062A, 0x002E]"

datatype upload_outcome =
    NoFile
  | OnImageSelect ImageData
  | Alert jsstring
  | Uncaught js_error

text \<open>Lines 54 to 62; \<open>match\<close> on \<open>null\<close> throws.\<close>

definition onloadend :: "jsstring option \<Rightarrow> upload_outcome" where
  "onloadend result =
     (case result of
        None \<Rightarrow> Uncaught TypeError
      | Some base64String \<Rightarrow>
          (case matchDataUrl base64String of
             None \<Rightarrow> Alert invalidFormatMessage
           | Some (mimeType', base64Data) \<Rightarrow>
               if base64Data \<noteq> [] \<and> mimeType' \<noteq> []
               then OnImageSelect \<lparr>base64 = base64Data, mimeType = mimeType'\<rparr>
               else Alert invalidFormatMessage))"

definition handleFileChange :: "(File \<Rightarrow> jsstring option) \<Rightarrow> File option \<Rightarrow> upload_outcome" where
  "handleFileChange reader files0 =
     (case files0 of None \<Rightarrow> NoFile | Some file \<Rightarrow> onloadend (reader file))"

section \<open>Local storage\<close>

text \<open>
  What \<open>JSON.parse\<close> returns is any JSON value, whatever type the code then gives it, and
  a property read adds \<open>undefined\<close>. A number is written as an integer: the code only
  asks of a number whether it is falsy, which is whether it is zero. An object is the list
  of its own properties in their order.

  \<open>JSON.parse\<close> and \<open>JSON.stringify\<close> themselves are arguments: \<open>parse\<close> answers \<open>None\<close>
  where \<open>JSON.parse\<close> throws a SyntaxError.
\<close>

datatype jsval =
    Undefined
  | Null
  | Bool bool
  | Num int
  | Str jsstring
  | Arr "jsval list"
  | Obj "(jsstring \<times> jsval) list"







type_synonym localStorage = "jsstring \<rightharpoonup> jsstring"


subsection \<open>usePersistentState\<close>

text \<open>Lines 12 to 20, the initialiser of the state.\<close>

definition initialState ::
    "(jsstring \<Rightarrow> jsval option) \<Rightarrow> localStorage \<Rightarrow> jsstring \<Rightarrow> jsval \<Rightarrow> jsval" where
  "initialState parse storage key defaultValue =
     (case storage key of
        None \<Rightarrow> defaultValue
      | Some storedValue \<Rightarrow>
          if storedValue = [] then defaultValue
          else (case parse storedValue of None \<Rightarrow> defaultValue | Some v \<Rightarrow> v))"

text \<open>
  Lines 22 to 28, the effect run after every change of the state.
  \<open>JSON.stringify(undefined)\<close> is \<open>undefined\<close>, which \<open>setItem\<close> stores as the text
  \<open>undefined\<close>.
\<close>

definition storedText :: "(jsval \<Rightarrow> jsstring) \<Rightarrow> jsval \<Rightarrow> jsstring" where
  "storedText stringify state = (if state = Undefined then lit ''undefined'' else stringify state)"

definition persist ::
    "(jsval \<Rightarrow> jsstring) \<Rightarrow> localStorage \<Rightarrow> jsstring \<Rightarrow> jsval \<Rightarrow> localStorage" where
  "persist stringify storage key state = storage(key \<mapsto> storedText stringify state)"

subsection \<open>The loaded history in the words of the specification\<close>









section \<open>Example values\<close>

text \<open>The SDK builds every chat handle.\<close>

definition createsExample :: "model_name \<Rightarrow> ChatMessage list \<Rightarrow> bool" where
  "createsExample model history = True"

text \<open>A fresh page: no stored conversation, the chat handle built, \<open>Hi\<close> typed.\<close>

definition readyExample :: App where
  "readyExample =
     \<lparr>chatHistory = [], activeChatId = None, chat = True, messages = [], input = lit ''Hi'',
      isLoading = False, error = None, useProModel = False, timers = 0, running = [],
      emitted = []\<rparr>"

definition conversationExample :: App where
  "conversationExample =
     readyExample\<lparr>messages := [\<lparr>role = User, content = lit ''Q''\<rparr>,
                               \<lparr>role = Model, content = lit ''A''\<rparr>]\<rparr>"

definition longInputExample :: App where
  "longInputExample =
     readyExample\<lparr>input := lit ''Please summarise the history of the Silk Road''\<rparr>"

definition searchResponseExample :: GenerateContentResponse where
  "searchResponseExample =
     \<lparr>candidates = Some
        [\<lparr>candidate_content = None,
          groundingMetadata = Some \<lparr>groundingChunks = Some
            [\<lparr>web = Some \<lparr>web_uri = Some (lit ''a''), web_title = Some []\<rparr>\<rparr>,
             \<lparr>web = Some \<lparr>web_uri = Some (lit ''b''), web_title = Some (lit ''T'')\<rparr>\<rparr>]\<rparr>\<rparr>],
      response_text = lit ''answer''\<rparr>"

definition pendingExample :: VideoOperation where
  "pendingExample = \<lparr>op_done = False, op_response = None\<rparr>"

definition finishedExample :: VideoOperation where
  "finishedExample =
     \<lparr>op_done = True,
      op_response = Some \<lparr>generatedVideos =
        Some [\<lparr>video = Some \<lparr>video_uri = Some (lit ''https://v/1?alt=media'')\<rparr>\<rparr>,
              \<lparr>video = Some \<lparr>video_uri = Some (lit ''https://v/2?alt=media'')\<rparr>\<rparr>]\<rparr>\<rparr>"

text \<open>The key is set; the host offers the dialog and reports a selected key.\<close>

definition keyPresentExample :: key_env where
  "keyPresentExample =
     \<lparr>key_at_first_test = Some (lit ''k''),
      window_aistudio = Some \<lparr>hasSelectedApiKey = Inr True, openSelectKey = None\<rparr>,
      key_at_second_test = Some (lit ''k'')\<rparr>"

text \<open>
  The key is not set at first; the host reports no selected key, the dialog is opened,
  and the key is set afterwards.
\<close>

definition keySelectedExample :: key_env where
  "keySelectedExample =
     \<lparr>key_at_first_test = None,
      window_aistudio = Some \<lparr>hasSelectedApiKey = Inr False, openSelectKey = None\<rparr>,
      key_at_second_test = Some (lit ''k'')\<rparr>"

definition pngFileExample :: File where
  "pngFileExample = \<lparr>file_type = lit ''image/png'', file_base64 = lit ''iVBORw0KGgo=''\<rparr>"

definition gifFileExample :: File where
  "gifFileExample = \<lparr>file_type = lit ''image/gif'', file_base64 = lit ''R0lGODlhAQABAAAAACw=''\<rparr>"

definition savedHistoryExample :: jsstring where
  "savedHistoryExample =
     lit ''[{\"id\":\"1\",\"messages\":[{\"role\":\"system\",\"content\":\"hi\"},{\"role\":\"user\",\"content\":\"\"},{\"role\":\"model\",\"content\":\"ok\"}]}]''"

definition parsedHistoryExample :: jsval where
  "parsedHistoryExample =
     Arr [Obj [(lit ''id'', Str (lit ''1'')),
               (lit ''messages'',
                Arr [Obj [(lit ''role'', Str (lit ''system'')), (lit ''content'', Str (lit ''hi''))],
                     Obj [(lit ''role'', Str (lit ''user'')), (lit ''content'', Str [])],
                     Obj [(lit ''role'', Str (lit ''model'')), (lit ''content'', Str (lit ''ok''))]])]]"

text \<open>A parser and a serialiser that know two texts, enough to run the examples.\<close>

definition parseExample :: "jsstring \<Rightarrow> jsval option" where
  "parseExample t =
     (if t = savedHistoryExample then Some parsedHistoryExample
      else if t = lit ''\"16:9\"'' then Some (Str (lit ''16:9''))
      else None)"

definition stringifyExample :: "jsval \<Rightarrow> jsstring" where
  "stringifyExample v =
     (if v = parsedHistoryExample then savedHistoryExample
      else if v = Str (lit ''16:9'') then lit ''\"16:9\"''
      else lit ''null'')"

section \<open>Properties of the Chatbot\<close>

lemma run_append:
  "run createChat st (es @ fs)
     = (case run createChat st es of None \<Rightarrow> None | Some st' \<Rightarrow> run createChat st' fs)"
  by (induction es arbitrary: st) (auto split: option.splits)

lemma fragments_append: "fragments (es @ fs) = fragments es @ fragments fs"
  by (induction es rule: fragments.induct) simp_all

lemma callAt_bound: "callAt st k = Some c \<Longrightarrow> k < length (running st)"
  by (simp add: callAt_def split: if_splits)

lemma session_cong:
  "chatHistory st' = chatHistory st \<Longrightarrow> activeChatId st' = activeChatId st
     \<Longrightarrow> session st' = session st"
  by (simp add: session_def split: option.splits)

subsection \<open>Between a submission and the end of its stream\<close>

lemma step_midstream:
  assumes "midstream k e" "callAt st k = Some c" "messages st \<noteq> []"
  shows "\<exists>st'. step createChat st e = Some st'
           \<and> callAt st' k = Some (c\<lparr>fullResponse := fullResponse c @ concat (fragments [e])\<rparr>)
           \<and> messages st' \<noteq> [] \<and> emitted st' = emitted st
           \<and> chatHistory st' = chatHistory st \<and> activeChatId st' = activeChatId st"
  using assms
  by (cases e) (auto simp: onChunk_def onTimer_def callAt_def Let_def split: list.splits if_splits)

lemma run_midstream:
  assumes "\<forall>e\<in>set es. midstream k e" "callAt st k = Some c" "messages st \<noteq> []"
  shows "\<exists>st'. run createChat st es = Some st'
           \<and> callAt st' k = Some (c\<lparr>fullResponse := fullResponse c @ concat (fragments es)\<rparr>)
           \<and> messages st' \<noteq> [] \<and> emitted st' = emitted st
           \<and> chatHistory st' = chatHistory st \<and> activeChatId st' = activeChatId st"
  using assms
proof (induction es arbitrary: st c)
  case Nil
  then show ?case by simp
next
  case (Cons e es)
  from Cons.prems have e: "midstream k e" and es: "\<forall>e\<in>set es. midstream k e" by simp_all
  let ?c1 = "c\<lparr>fullResponse := fullResponse c @ concat (fragments [e])\<rparr>"
  from step_midstream [OF e Cons.prems(2,3), of createChat]
  obtain st1 where st1: "step createChat st e = Some st1" "callAt st1 k = Some ?c1"
      "messages st1 \<noteq> []" "emitted st1 = emitted st"
      "chatHistory st1 = chatHistory st" "activeChatId st1 = activeChatId st"
    by blast
  from Cons.IH [OF es st1(2,3)]
  obtain st' where st': "run createChat st1 es = Some st'"
      "callAt st' k = Some (?c1\<lparr>fullResponse := fullResponse ?c1 @ concat (fragments es)\<rparr>)"
      "messages st' \<noteq> []" "emitted st' = emitted st1"
      "chatHistory st' = chatHistory st1" "activeChatId st' = activeChatId st1"
    by blast
  have frag: "concat (fragments (e # es)) = concat (fragments [e]) @ concat (fragments es)"
    by (cases e) simp_all
  show ?case
    using st1 st' by (simp add: frag)
qed

lemma onChunk_running:
  assumes "callAt st k = Some c" "messages st \<noteq> []"
  shows "onChunk st k t =
           Some (st\<lparr>running := (running st)[k := Some (c\<lparr>fullResponse := fullResponse c @ appendedText t\<rparr>)],
                    messages :=
                      (if role (last (messages st)) = Model
                       then butlast (messages st)
                            @ [(last (messages st))\<lparr>content := fullResponse c @ appendedText t\<rparr>]
                       else messages st)\<rparr>)"
  using assms by (cases "messages st") (simp_all add: onChunk_def Let_def)

lemma run_after_timer:
  assumes "\<forall>e\<in>set es. midstream k e" "callAt st k = Some c" "timers st = 0"
    "messages st = pre @ [\<lparr>role = Model, content = x\<rparr>]"
  shows "\<exists>st' y. run createChat st es = Some st' \<and> messages st' = pre @ [\<lparr>role = Model, content = y\<rparr>]"
  using assms
proof (induction es arbitrary: st c x)
  case Nil
  then show ?case by simp
next
  case (Cons e es)
  from Cons.prems have lt: "k < length (running st)"
    by (simp add: callAt_bound)
  show ?case
  proof (cases e)
    case (Chunk k' t)
    with Cons.prems(1) have k': "k' = k" by simp
    let ?c1 = "c\<lparr>fullResponse := fullResponse c @ appendedText t\<rparr>"
    obtain st1 where st1: "step createChat st e = Some st1" "timers st1 = 0"
        "messages st1 = pre @ [\<lparr>role = Model, content = fullResponse c @ appendedText t\<rparr>]"
        "callAt st1 k = Some ?c1"
      using Cons.prems(2-4) Chunk k' lt
      by (simp add: onChunk_running) (auto simp: callAt_def split: if_splits)
    from Cons.IH [of st1 ?c1 "fullResponse c @ appendedText t"] Cons.prems(1) st1
    show ?thesis by auto
  next
    case (SetInput v)
    have "callAt (st\<lparr>input := v\<rparr>) k = Some c"
      using Cons.prems(2) by (simp add: callAt_def split: if_splits)
    from Cons.IH [of "st\<lparr>input := v\<rparr>" c x, OF _ this] Cons.prems(1,3,4)
    show ?thesis using SetInput by auto
  next
    case TimerFired
    from Cons.IH [of st c x] Cons.prems
    show ?thesis using TimerFired by (auto simp: onTimer_def)
  qed (use Cons.prems in auto)
qed

lemma handleSubmit_accepted:
  assumes "trim (input st) \<noteq> []" "\<not> isLoading st" "chat st"
  shows "handleSubmit st =
           st\<lparr>messages := messages st @ [\<lparr>role = User, content = input st\<rparr>],
              input := [], isLoading := True, error := None, timers := Suc (timers st),
              running := running st @
                [Some \<lparr>closure_session = session st,
                       closure_useProModel = useProModel st,
                       newMessages = messages st @ [\<lparr>role = User, content = input st\<rparr>],
                       currentInput = input st, fullResponse = []\<rparr>]\<rparr>"
  using assms by (simp add: handleSubmit_def Let_def)

text \<open>
  The guard of \<open>handleSubmit\<close>: a submission made while \<open>isLoading\<close> holds changes
  nothing.
\<close>

lemma handleSubmit_ignored_while_loading: "isLoading st \<Longrightarrow> handleSubmit st = st"
  by (simp add: handleSubmit_def)

lemma submit_then_stream:
  assumes "trim (input st) \<noteq> []" "\<not> isLoading st" "chat st"
    "\<forall>e\<in>set evs. midstream (length (running st)) e"
  shows "\<exists>st1. run createChat st (Submit # evs) = Some st1
           \<and> callAt st1 (length (running st))
               = Some \<lparr>closure_session = session st,
                       closure_useProModel = useProModel st,
                       newMessages = messages st @ [\<lparr>role = User, content = input st\<rparr>],
                       currentInput = input st,
                       fullResponse = concat (fragments evs)\<rparr>
           \<and> messages st1 \<noteq> [] \<and> emitted st1 = emitted st
           \<and> chatHistory st1 = chatHistory st \<and> activeChatId st1 = activeChatId st"
proof -
  let ?c = "\<lparr>closure_session = session st, closure_useProModel = useProModel st,
             newMessages = messages st @ [\<lparr>role = User, content = input st\<rparr>],
             currentInput = input st, fullResponse = []\<rparr>"
  have s0: "callAt (handleSubmit st) (length (running st)) = Some ?c"
      "messages (handleSubmit st) \<noteq> []" "emitted (handleSubmit st) = emitted st"
      "chatHistory (handleSubmit st) = chatHistory st"
      "activeChatId (handleSubmit st) = activeChatId st"
    by (simp_all add: handleSubmit_accepted [OF assms(1-3)] callAt_def)
  from run_midstream [OF assms(4) s0(1,2), of createChat] s0(3-5)
  show ?thesis by auto
qed

subsection \<open>The end of a stream\<close>

lemma sessionEffect_messages:
  "messages (sessionEffect createChat st)
     = (case session st of None \<Rightarrow> [] | Some s \<Rightarrow> session_messages s)"
  by (simp add: sessionEffect_def initializeChat_def Let_def)

lemma sessionEffect_emitted: "emitted (sessionEffect createChat st) = emitted st"
  by (simp add: sessionEffect_def initializeChat_def Let_def)

lemma find_replaced:
  "find (\<lambda>x. session_id x = i) xs = Some s \<Longrightarrow> session_id u = i
     \<Longrightarrow> find (\<lambda>x. session_id x = i)
           (map (\<lambda>x. if session_id x = session_id u then u else x) xs) = Some u"
  by (induction xs) (auto split: if_splits)

lemma session_found: "session st = Some s \<Longrightarrow> activeChatId st = Some (session_id s)"
  by (auto simp: session_def find_Some_iff split: option.splits)

lemma handleUpdateSession_emitted:
  "emitted (handleUpdateSession createChat u st) = emitted st"
  by (simp add: handleUpdateSession_def sessionEffect_emitted Let_def split: option.splits)

lemma handleUpdateSession_shown:
  assumes "session st = Some s" "session_id u = session_id s"
  shows "messages (handleUpdateSession createChat u st) = session_messages u"
proof -
  let ?st' = "st\<lparr>chatHistory :=
                 map (\<lambda>x. if session_id x = session_id u then u else x) (chatHistory st)\<rparr>"
  from assms(1) have a: "activeChatId st = Some (session_id s)"
    by (rule session_found)
  with assms(1) have f: "find (\<lambda>x. session_id x = session_id s) (chatHistory st) = Some s"
    by (simp add: session_def)
  have "session ?st' = Some u"
    using find_replaced [OF f assms(2)] a by (simp add: session_def)
  then show ?thesis
    using assms by (simp add: handleUpdateSession_def sessionEffect_messages Let_def)
qed

lemma handleAddNewSession_shown:
  "messages (handleAddNewSession createChat n st) = session_messages n"
  "emitted (handleAddNewSession createChat n st) = emitted st"
  by (simp_all add: handleAddNewSession_def sessionEffect_messages sessionEffect_emitted
      session_def)

lemma onStreamDone_new:
  assumes "callAt st k = Some c" "closure_session c = None"
  shows "\<exists>n. emitted (onStreamDone createChat st k now) = emitted st @ [OnNewSession n]
           \<and> session_title n = newSessionTitle (currentInput c)
           \<and> session_messages n
               = newMessages c @ [\<lparr>role = Model, content = fullResponse c\<rparr>]
           \<and> messages (onStreamDone createChat st k now) = session_messages n"
  using assms by (simp add: onStreamDone_def Let_def handleAddNewSession_shown)

lemma onStreamDone_update:
  assumes "callAt st k = Some c" "closure_session c = Some s" "session st = Some s"
  shows "emitted (onStreamDone createChat st k now)
           = emitted st @ [OnUpdate (s\<lparr>session_messages :=
                              newMessages c @ [\<lparr>role = Model, content = fullResponse c\<rparr>]\<rparr>)]
         \<and> messages (onStreamDone createChat st k now)
             = newMessages c @ [\<lparr>role = Model, content = fullResponse c\<rparr>]"
proof -
  let ?u = "s\<lparr>session_messages := newMessages c @ [\<lparr>role = Model, content = fullResponse c\<rparr>]\<rparr>"
  let ?st1 = "st\<lparr>running := (running st)[k := None],
                 emitted := emitted st @ [OnUpdate ?u]\<rparr>"
  have s: "session ?st1 = Some s"
    using assms(3) by (simp add: session_def split: option.splits)
  have "messages (handleUpdateSession createChat ?u ?st1) = session_messages ?u"
    by (rule handleUpdateSession_shown [OF s]) simp
  then show ?thesis
    using assms(1,2) by (simp add: onStreamDone_def Let_def handleUpdateSession_emitted)
qed

text \<open>
  Whatever chunks the stream delivers, and wherever between them the timeout fires or
  the user types, the submission ends with one call to \<open>onUpdate\<close> or
  \<open>onNewSession\<close>; the assistant turn of the session passed there holds what the chunks
  appended (\<open>appendedText\<close>: the text of a chunk, the text \<open>undefined\<close> for a chunk
  without one), in their order of arrival, after the transcript as it was and the user's
  turn; and the transcript on the screen is then that list too (the effect on the
  \<open>session\<close> prop puts it there). Where every chunk has a text, what was appended is
  the text fragments themselves (\<open>fragments_with_text\<close>).
\<close>

lemma fragments_with_text:
  "\<forall>k. Chunk k None \<notin> set evs \<Longrightarrow> fragments evs = streamedTexts evs"
  by (induction evs rule: streamedTexts.induct) (auto simp: appendedText_def)

lemma stream_texts_concatenated:
  assumes "trim (input st) \<noteq> []" "\<not> isLoading st" "chat st"
    "\<forall>e\<in>set evs. midstream (length (running st)) e"
  shows "\<exists>st' cb. run createChat st (Submit # evs @ [StreamDone (length (running st)) now])
                     = Some st'
           \<and> emitted st' = emitted st @ [cb]
           \<and> session_messages (callbackSession cb)
               = messages st @ [\<lparr>role = User, content = input st\<rparr>,
                                \<lparr>role = Model, content = concat (fragments evs)\<rparr>]
           \<and> messages st'
               = messages st @ [\<lparr>role = User, content = input st\<rparr>,
                                \<lparr>role = Model, content = concat (fragments evs)\<rparr>]"
proof -
  let ?k = "length (running st)"
  let ?u = "\<lparr>role = User, content = input st\<rparr>"
  let ?c = "\<lparr>closure_session = session st, closure_useProModel = useProModel st,
             newMessages = messages st @ [?u], currentInput = input st,
             fullResponse = concat (fragments evs)\<rparr>"
  from submit_then_stream [OF assms, of createChat] obtain st1 where
    st1: "run createChat st (Submit # evs) = Some st1" "callAt st1 ?k = Some ?c"
      "emitted st1 = emitted st" "chatHistory st1 = chatHistory st"
      "activeChatId st1 = activeChatId st"
    by blast
  have fin: "run createChat st (Submit # evs @ [StreamDone ?k now])
               = Some (onStreamDone createChat st1 ?k now)"
    using st1(1) run_append [of createChat st "Submit # evs" "[StreamDone ?k now]"] by simp
  have same: "session st1 = session st"
    using st1(4,5) by (rule session_cong)
  have "\<exists>cb. emitted (onStreamDone createChat st1 ?k now) = emitted st @ [cb]
          \<and> session_messages (callbackSession cb)
              = messages st @ [?u, \<lparr>role = Model, content = concat (fragments evs)\<rparr>]
          \<and> messages (onStreamDone createChat st1 ?k now)
              = messages st @ [?u, \<lparr>role = Model, content = concat (fragments evs)\<rparr>]"
  proof (cases "session st")
    case None
    from onStreamDone_new [OF st1(2), of createChat now] None st1(3)
    show ?thesis by auto
  next
    case (Some s)
    from onStreamDone_update [OF st1(2), of s createChat now] Some same st1(3)
    show ?thesis by simp
  qed
  with fin show ?thesis by blast
qed

text \<open>
  When the stream ends before the timeout has fired, the timeout appends its empty
  assistant turn after the answer.
\<close>

lemma late_timer_appends_empty_turn:
  "map_option messages
     (run createsExample readyExample
        [Submit, Chunk 0 (Some (lit ''Hello'')), StreamDone 0 1700000000000, TimerFired])
     = Some [\<lparr>role = User, content = lit ''Hi''\<rparr>, \<lparr>role = Model, content = lit ''Hello''\<rparr>,
             \<lparr>role = Model, content = []\<rparr>]"
  by (simp add: readyExample_def createsExample_def handleSubmit_def onChunk_def
      onStreamDone_def handleAddNewSession_def sessionEffect_def initializeChat_def session_def
      callAt_def appendedText_def onTimer_def trim_def isWhiteSpace_def lit_def Let_def)

text \<open>
  Claim C1. The assistant turn does not always hold the concatenation of the streamed
  text fragments. \<open>fullResponse += chunk.text\<close> appends the text \<open>undefined\<close> for a chunk
  that has no text (the SDK types \<open>text\<close> as \<open>string | undefined\<close>; a chunk that carries
  only metadata has none). Here the stream delivers the fragment \<open>Hel\<close>, a chunk without
  text and the fragment \<open>lo\<close>: the assistant turn of the session handed to
  \<open>onNewSession\<close>, and of the transcript on the screen, is \<open>Helundefinedlo\<close>, not
  \<open>Hello\<close>.
\<close>

theorem textless_chunk_appends_undefined:
  "map_option (map (session_messages \<circ> callbackSession) \<circ> emitted)
     (run createsExample readyExample
        [Submit, TimerFired, Chunk 0 (Some (lit ''Hel'')), Chunk 0 None,
         Chunk 0 (Some (lit ''lo'')), StreamDone 0 1700000000000])
     = Some [[\<lparr>role = User, content = lit ''Hi''\<rparr>,
              \<lparr>role = Model, content = lit ''Helundefinedlo''\<rparr>]]
   \<and> map_option messages
       (run createsExample readyExample
          [Submit, TimerFired, Chunk 0 (Some (lit ''Hel'')), Chunk 0 None,
           Chunk 0 (Some (lit ''lo'')), StreamDone 0 1700000000000])
     = Some [\<lparr>role = User, content = lit ''Hi''\<rparr>,
             \<lparr>role = Model, content = lit ''Helundefinedlo''\<rparr>]
   \<and> concat (streamedTexts
         [Submit, TimerFired, Chunk 0 (Some (lit ''Hel'')), Chunk 0 None,
          Chunk 0 (Some (lit ''lo'')), StreamDone 0 1700000000000])
     = lit ''Hello''"
  by (simp add: readyExample_def createsExample_def handleSubmit_def onChunk_def
      onStreamDone_def handleAddNewSession_def sessionEffect_def initializeChat_def session_def
      callAt_def appendedText_def onTimer_def trim_def isWhiteSpace_def lit_def Let_def)

text \<open>
  Where the timeout has fired before the stream fails with a value that is not \<open>null\<close>
  or \<open>undefined\<close>, the rollback restores the transcript: the two turns it drops are the
  user's and the assistant's.
\<close>

lemma rollback_after_timer:
  assumes "trim (input st) \<noteq> []" "\<not> isLoading st" "chat st" "timers st = 0"
    "\<forall>e\<in>set evs. midstream (length (running st)) e"
  shows "\<exists>st'. run createChat st
                  (Submit # TimerFired # evs
                     @ [StreamError (length (running st)) (ThrownValue message)]) = Some st'
           \<and> messages st' = messages st \<and> \<not> isLoading st'
           \<and> error st' = Some (case message of None \<Rightarrow> unexpectedErrorMessage
                                | Some m \<Rightarrow> if m = [] then unexpectedErrorMessage else m)"
proof -
  let ?k = "length (running st)"
  let ?u = "\<lparr>role = User, content = input st\<rparr>"
  have mid: "\<forall>e\<in>set (TimerFired # evs). midstream ?k e"
    using assms(5) by simp
  from submit_then_stream [OF assms(1-3) mid, of createChat] obtain st1 c where
    st1: "run createChat st (Submit # TimerFired # evs) = Some st1" "callAt st1 ?k = Some c"
    by auto
  let ?s2 = "onTimer (handleSubmit st)"
  have s2: "timers ?s2 = 0"
      "messages ?s2 = (messages st @ [?u]) @ [\<lparr>role = Model, content = []\<rparr>]"
      "\<exists>c. callAt ?s2 ?k = Some c"
    using assms(4) by (simp_all add: onTimer_def callAt_def handleSubmit_accepted [OF assms(1-3)])
  then obtain c2 where c2: "callAt ?s2 ?k = Some c2"
    by blast
  from run_after_timer [OF assms(5) c2 s2(1,2), of createChat] obtain s3 where
    s3: "run createChat ?s2 evs = Some s3" "\<exists>x. messages s3 = (messages st @ [?u]) @ [x]"
    by auto
  have "run createChat st (Submit # TimerFired # evs) = Some s3"
    using s3(1) by simp
  with st1(1) have eq: "st1 = s3" by simp
  have "run createChat st (Submit # TimerFired # evs @ [StreamError ?k (ThrownValue message)])
          = Some (onStreamError st1 ?k (ThrownValue message))"
    using st1(1)
      run_append [of createChat st "Submit # TimerFired # evs"
        "[StreamError ?k (ThrownValue message)]"]
    by simp
  then show ?thesis
    using st1(2) s3(2) eq by (auto simp: onStreamError_def)
qed

text \<open>
  Claim C2. The failure handler drops the last two turns whatever they are. When the stream
  fails before the timeout has appended the assistant turn, the two turns dropped are
  the user's and the last turn of the earlier conversation; the timeout then appends an
  empty assistant turn. Here the transcript holds a question and its answer, the next
  submission fails at once: the answer is gone and an empty assistant turn is shown.
\<close>

theorem rollback_before_timer_loses_turn:
  "map_option messages
     (run createChat conversationExample
        [Submit, StreamError 0 (ThrownValue (Some (lit ''Failed to fetch'')))])
     = Some [\<lparr>role = User, content = lit ''Q''\<rparr>]
   \<and> map_option messages
       (run createChat conversationExample
          [Submit, StreamError 0 (ThrownValue (Some (lit ''Failed to fetch''))), TimerFired])
     = Some [\<lparr>role = User, content = lit ''Q''\<rparr>, \<lparr>role = Model, content = []\<rparr>]
   \<and> messages conversationExample
     = [\<lparr>role = User, content = lit ''Q''\<rparr>, \<lparr>role = Model, content = lit ''A''\<rparr>]"
  by (simp add: conversationExample_def readyExample_def handleSubmit_def onStreamError_def
      callAt_def onTimer_def trim_def isWhiteSpace_def lit_def Let_def)

text \<open>
  Claim C5. A submission that starts a fresh conversation (no session yet) ends with one
  call to \<open>onNewSession\<close>, and the title of the session passed is the input when the
  input has at most 30 code units, and its first 30 code units followed by three dots
  otherwise.
\<close>

theorem new_session_title:
  assumes "trim (input st) \<noteq> []" "\<not> isLoading st" "chat st" "session st = None"
    "\<forall>e\<in>set evs. midstream (length (running st)) e"
  shows "\<exists>st' s. run createChat st (Submit # evs @ [StreamDone (length (running st)) now])
                    = Some st'
           \<and> emitted st' = emitted st @ [OnNewSession s]
           \<and> session_title s = (if length (input st) \<le> 30 then input st
                                 else take 30 (input st) @ lit ''...'')"
proof -
  let ?k = "length (running st)"
  let ?c = "\<lparr>closure_session = session st, closure_useProModel = useProModel st,
             newMessages = messages st @ [\<lparr>role = User, content = input st\<rparr>],
             currentInput = input st, fullResponse = concat (fragments evs)\<rparr>"
  from submit_then_stream [OF assms(1-3,5), of createChat] obtain st1 where
    st1: "run createChat st (Submit # evs) = Some st1" "callAt st1 ?k = Some ?c"
      "emitted st1 = emitted st"
    by blast
  have fin: "run createChat st (Submit # evs @ [StreamDone ?k now])
               = Some (onStreamDone createChat st1 ?k now)"
    using st1(1) run_append [of createChat st "Submit # evs" "[StreamDone ?k now]"] by simp
  have "closure_session ?c = None"
    using assms(4) by simp
  from onStreamDone_new [OF st1(2) this, of createChat now] obtain n where
    n: "emitted (onStreamDone createChat st1 ?k now) = emitted st1 @ [OnNewSession n]"
      "session_title n = newSessionTitle (currentInput ?c)"
    by blast
  have "session_title n = (if length (input st) \<le> 30 then input st
                           else take 30 (input st) @ lit ''...'')"
    using n(2) by (simp add: newSessionTitle_def substring0_def)
  with fin n(1) st1(3) show ?thesis
    by auto
qed

theorem new_session_title_witness:
  "trim (input longInputExample) \<noteq> [] \<and> \<not> isLoading longInputExample \<and> chat longInputExample
   \<and> session longInputExample = None
   \<and> list_all (midstream (length (running longInputExample)))
       [TimerFired, Chunk 0 (Some (lit ''ok''))]
   \<and> length (input longInputExample) = 45
   \<and> (\<exists>st' s. run createsExample longInputExample
                  [Submit, TimerFired, Chunk 0 (Some (lit ''ok'')), StreamDone 0 1700000000000]
                = Some st'
        \<and> emitted st' = [OnNewSession s]
        \<and> session_title s = lit ''Please summarise the history o...'')"
proof -
  have g: "trim (input longInputExample) \<noteq> []" "\<not> isLoading longInputExample"
      "chat longInputExample" "session longInputExample = None"
    by (simp_all add: longInputExample_def readyExample_def session_def trim_def
        isWhiteSpace_def lit_def)
  have k: "length (running longInputExample) = 0"
    by (simp add: longInputExample_def readyExample_def)
  have m: "\<forall>e\<in>set [TimerFired, Chunk 0 (Some (lit ''ok''))].
             midstream (length (running longInputExample)) e"
    by (simp add: k)
  show ?thesis
    using g m new_session_title [OF g m, of createsExample 1700000000000]
    by (simp add: longInputExample_def readyExample_def lit_def)
qed

text \<open>
  Claim C10. A submission made while a stream is in flight is not always ignored. The
  guard of \<open>handleSubmit\<close> reads \<open>isLoading\<close>, and \<open>isLoading\<close> does not stay set for the
  whole stream: the input field and the button are disabled while it holds, the model
  checkbox never is; its handler runs \<open>initializeChat\<close>, and the \<open>finally\<close> block of
  \<open>initializeChat\<close> clears \<open>isLoading\<close>. Here the first answer is streaming (\<open>Hel\<close> has
  arrived, the call is suspended), the user ticks the checkbox, types \<open>again\<close> and
  submits: the submission is accepted, the transcript grows by the user's turn and a
  second call runs beside the first.
\<close>

theorem submit_accepted_after_model_switch:
  "map_option (\<lambda>st. (messages st, isLoading st, map (map_option currentInput) (running st)))
     (run createsExample readyExample
        [Submit, TimerFired, Chunk 0 (Some (lit ''Hel''))])
     = Some ([\<lparr>role = User, content = lit ''Hi''\<rparr>, \<lparr>role = Model, content = lit ''Hel''\<rparr>],
             True, [Some (lit ''Hi'')])
   \<and> map_option (\<lambda>st. (messages st, isLoading st, map (map_option currentInput) (running st)))
       (run createsExample readyExample
          [Submit, TimerFired, Chunk 0 (Some (lit ''Hel'')), ModelChange True,
           SetInput (lit ''again'')])
     = Some ([\<lparr>role = User, content = lit ''Hi''\<rparr>, \<lparr>role = Model, content = lit ''Hel''\<rparr>],
             False, [Some (lit ''Hi'')])
   \<and> map_option (\<lambda>st. (messages st, isLoading st, map (map_option currentInput) (running st)))
       (run createsExample readyExample
          [Submit, TimerFired, Chunk 0 (Some (lit ''Hel'')), ModelChange True,
           SetInput (lit ''again''), Submit])
     = Some ([\<lparr>role = User, content = lit ''Hi''\<rparr>, \<lparr>role = Model, content = lit ''Hel''\<rparr>,
              \<lparr>role = User, content = lit ''again''\<rparr>],
             True, [Some (lit ''Hi''), Some (lit ''again'')])"
  by (simp add: readyExample_def createsExample_def handleSubmit_def onChunk_def
      handleModelChange_def initializeChat_def session_def callAt_def appendedText_def
      onTimer_def trim_def isWhiteSpace_def lit_def Let_def)

section \<open>Properties of the gateway\<close>

lemma firstInlineData_find:
  "firstInlineData ps
     = (case find (\<lambda>p. inlineData p \<noteq> None) ps of
          None \<Rightarrow> Inl (Error noImageMessage)
        | Some p \<Rightarrow>
            (case inlineData p of
               None \<Rightarrow> Inl (Error noImageMessage)
             | Some b \<Rightarrow> Inr \<lparr>base64 = blob_data b, mimeType = blob_mimeType b\<rparr>))"
  by (induction ps) (auto split: option.splits)

lemma editImage_first_image_part:
  assumes "fst (getApiKey env) = Inr apiKey"
  shows "editImageWithPrompt env (Inr response)
     = (case find (\<lambda>p. inlineData p \<noteq> None) (responseParts response) of
          None \<Rightarrow> Inl (Error noImageMessage)
        | Some p \<Rightarrow>
            (case inlineData p of
               None \<Rightarrow> Inl (Error noImageMessage)
             | Some b \<Rightarrow> Inr \<lparr>base64 = blob_data b, mimeType = blob_mimeType b\<rparr>))"
  using assms by (simp add: editImageWithPrompt_def firstInlineData_find)

lemma generateImage_first_image:
  assumes "fst (getApiKey env) = Inr apiKey"
    "generatedImages response = Some (\<lparr>image_field = Some \<lparr>imageBytes = bytes\<rparr>\<rparr> # rest)"
  shows "generateImageWithPrompt env (Inr response)
     = (case bytes of
          None \<Rightarrow> Inl (Error noImageMessage)
        | Some b \<Rightarrow> if b = [] then Inl (Error noImageMessage)
                    else Inr \<lparr>base64 = b, mimeType = lit ''image/png''\<rparr>)"
  using assms by (auto simp: generateImageWithPrompt_def split: option.splits)

text \<open>
  Claim C3. \<open>editImageWithPrompt\<close> returns the payload of the first part that carries
  inline data and throws the no-image error when there is none
  (\<open>editImage_first_image_part\<close>, and the last equation below). \<open>generateImageWithPrompt\<close>
  throws the no-image error only when the first generated image has no bytes
  (\<open>generateImage_first_image\<close>): on a response whose list of generated images is empty
  or absent it throws a TypeError instead.
\<close>

theorem generateImage_without_image_throws_TypeError:
  "generateImageWithPrompt keyPresentExample (Inr \<lparr>generatedImages = Some []\<rparr>) = Inl TypeError
   \<and> generateImageWithPrompt keyPresentExample (Inr \<lparr>generatedImages = None\<rparr>) = Inl TypeError
   \<and> editImageWithPrompt keyPresentExample (Inr \<lparr>candidates = Some [], response_text = []\<rparr>)
       = Inl (Error noImageMessage)"
  by (simp add: generateImageWithPrompt_def editImageWithPrompt_def getApiKey_def selectKey_def
      truthyString_def keyPresentExample_def lit_def responseParts_def firstCandidate_def)

lemma filter_map_chunkSource:
  "filter (\<lambda>s. truthyString (uri s) \<and> truthyString (title s)) (map chunkSource chunks)
     = spec_citations chunks"
  by (induction chunks)
    (auto simp: chunkSource_def truthyString_def split: option.splits)

text \<open>
  Claim C8. With a key at hand, the search returns the response's text and exactly the
  provider's citation entries that have both a uri and a title, in their order. On the
  response with the entries (uri a, empty title) and (uri b, title T) it returns the
  second entry alone.
\<close>

theorem search_citations_filtered:
  assumes "fst (getApiKey env) = Inr apiKey"
  shows "searchWithGoogle env (Inr response)
           = Inr (response_text response, spec_citations (providerCitations response))"
  using assms
  by (simp add: searchWithGoogle_def responseSources_def providerCitations_def
      filter_map_chunkSource split: option.splits)

theorem search_citations_filtered_witness:
  "fst (getApiKey keyPresentExample) = Inr (lit ''k'')
   \<and> searchWithGoogle keyPresentExample (Inr searchResponseExample)
       = Inr (lit ''answer'', [\<lparr>uri = Some (lit ''b''), title = Some (lit ''T'')\<rparr>])"
proof -
  have k: "fst (getApiKey keyPresentExample) = Inr (lit ''k'')"
    by (simp add: getApiKey_def selectKey_def truthyString_def keyPresentExample_def lit_def)
  show ?thesis
    using k search_citations_filtered [OF k, of searchResponseExample]
    by (simp add: searchResponseExample_def providerCitations_def responseGroundingChunks_def
        firstCandidate_def lit_def)
qed

lemma pollLoop_completes:
  assumes "\<not> op_done operation"
    "\<forall>i<n. \<exists>op. getOp (k + i) = Inr op \<and> \<not> op_done op"
    "getOp (k + n) = Inr final" "op_done final"
  shows "pollLoop env getOp operation k trace
           = Some (Inr final, trace @ concat (replicate (Suc n) [Sleep 5000, Poll]))"
  using assms
proof (induction n arbitrary: operation k trace)
  case 0
  then show ?case
    by (simp add: pollLoop.simps [of env getOp operation] pollLoop.simps [of env getOp final])
next
  case (Suc n)
  from Suc.prems(2) obtain op where op: "getOp k = Inr op" "\<not> op_done op"
    by (metis add.right_neutral zero_less_Suc)
  have rest: "\<forall>i<n. \<exists>op. getOp (Suc k + i) = Inr op \<and> \<not> op_done op"
    using Suc.prems(2) by (metis Suc_less_eq add_Suc_shift)
  have fin: "getOp (Suc k + n) = Inr final"
    using Suc.prems(3) by simp
  from Suc.IH [OF op(2) rest fin Suc.prems(4)]
  have "pollLoop env getOp op (Suc k) (trace @ [Sleep 5000, Poll])
          = Some (Inr final, (trace @ [Sleep 5000, Poll]) @ concat (replicate (Suc n) [Sleep 5000, Poll]))" .
  then show ?case
    using Suc.prems(1) op(1) by (simp add: pollLoop.simps [of env getOp operation])
qed

lemma pollLoop_returns_only_if:
  assumes "pollLoop env getOp operation k trace = Some r"
  shows "op_done operation \<or> (\<exists>i\<ge>k. case getOp i of Inl e \<Rightarrow> True | Inr op \<Rightarrow> op_done op)"
proof (rule pollLoop.raw_induct
    [where P = "\<lambda>env getOp operation k trace r.
        op_done operation \<or> (\<exists>i\<ge>k. case getOp i of Inl e \<Rightarrow> True | Inr op \<Rightarrow> op_done op)",
      OF _ assms])
  fix f :: "key_env \<Rightarrow> (nat \<Rightarrow> thrown + VideoOperation) \<Rightarrow> VideoOperation \<Rightarrow> nat \<Rightarrow> action list
              \<Rightarrow> ((js_error + VideoOperation) \<times> action list) option"
  fix env getOp operation k trace r
  assume IH: "\<And>env getOp operation k trace r. f env getOp operation k trace = Some r \<Longrightarrow>
      op_done operation \<or> (\<exists>i\<ge>k. case getOp i of Inl e \<Rightarrow> True | Inr op \<Rightarrow> op_done op)"
  assume hyp: "(if op_done operation then Some (Inr operation, trace)
      else case getOp k of
             Inl e \<Rightarrow> Some (Inl (fst (pollFailure env e)),
                            trace @ [Sleep 5000, Poll] @ snd (pollFailure env e))
           | Inr operation' \<Rightarrow> f env getOp operation' (Suc k) (trace @ [Sleep 5000, Poll])) = Some r"
  show "op_done operation \<or> (\<exists>i\<ge>k. case getOp i of Inl e \<Rightarrow> True | Inr op \<Rightarrow> op_done op)"
  proof (cases "op_done operation")
    case True
    then show ?thesis by simp
  next
    case False
    show ?thesis
    proof (cases "getOp k")
      case (Inl e)
      then show ?thesis by (auto intro!: exI [of _ k])
    next
      case (Inr op')
      with hyp False have "f env getOp op' (Suc k) (trace @ [Sleep 5000, Poll]) = Some r"
        by simp
      from IH [OF this] show ?thesis
      proof
        assume "op_done op'"
        with Inr show ?thesis by (auto intro!: exI [of _ k])
      next
        assume "\<exists>i\<ge>Suc k. case getOp i of Inl e \<Rightarrow> True | Inr op \<Rightarrow> op_done op"
        then show ?thesis by (meson Suc_leD)
      qed
    qed
  qed
qed

lemma pollLoop_never_returns:
  assumes "\<not> op_done operation" "\<forall>i. \<exists>op. getOp i = Inr op \<and> \<not> op_done op"
  shows "pollLoop env getOp operation k trace = None"
proof (cases "pollLoop env getOp operation k trace")
  case None
  then show ?thesis .
next
  case (Some r)
  from pollLoop_returns_only_if [OF Some] assms(1)
  obtain i where "case getOp i of Inl e \<Rightarrow> True | Inr op \<Rightarrow> op_done op" by blast
  moreover from assms(2) obtain op where "getOp i = Inr op" "\<not> op_done op" by blast
  ultimately show ?thesis by simp
qed

lemma getApiKey_returns_key:
  assumes "key_at_second_test env = Some apiKey" "apiKey \<noteq> []"
    "\<forall>a. window_aistudio env = Some a
           \<longrightarrow> (\<exists>b. hasSelectedApiKey a = Inr b) \<and> openSelectKey a = None"
  shows "getApiKey env
           = (Inr apiKey,
              if key_at_first_test env = None \<or> key_at_first_test env = Some []
              then (case window_aistudio env of
                      None \<Rightarrow> []
                    | Some a \<Rightarrow> if hasSelectedApiKey a = Inr True then [HasSelectedApiKey]
                                else [HasSelectedApiKey, OpenSelectKey])
              else [])"
  using assms
  by (auto simp: getApiKey_def selectKey_def truthyString_def split: option.splits sum.splits)

text \<open>
  Claim C9. Let the key be set when \<open>getApiKey\<close> returns it, the host's methods not
  reject, and the handle not be done at first. What \<open>getApiKey\<close> does comes first: nothing
  when the key was set from the start; otherwise, where the host offers them, the
  question whether a key is selected and, when none is, the dialog. Then: when the first
  poll reports not done and the second reports done, the first generated video of the
  response carrying a link, the function sleeps 5000 ms, polls, sleeps 5000 ms, polls,
  does nothing else, and returns the object URL that fetching the link (with the key
  appended) gives; when every poll reports not done, it never returns; when the first
  poll is rejected, it has slept and polled once and throws.
\<close>

theorem animation_polling:
  assumes "key_at_second_test env = Some apiKey" "apiKey \<noteq> []"
    "\<forall>a. window_aistudio env = Some a
           \<longrightarrow> (\<exists>b. hasSelectedApiKey a = Inr b) \<and> openSelectKey a = None"
    "keyActions
       = (if key_at_first_test env = None \<or> key_at_first_test env = Some []
          then (case window_aistudio env of
                  None \<Rightarrow> []
                | Some a \<Rightarrow> if hasSelectedApiKey a = Inr True then [HasSelectedApiKey]
                            else [HasSelectedApiKey, OpenSelectKey])
          else [])"
    "\<not> op_done op0"
  shows "(getOp 0 = Inr op1 \<and> \<not> op_done op1 \<and> getOp 1 = Inr op2 \<and> op_done op2
            \<and> op_response op2 = Some r \<and> generatedVideos r = Some (g # gs)
            \<and> video g = Some v \<and> video_uri v = Some link \<and> link \<noteq> []
            \<and> fetchObjectURL (link @ lit ''&key='' @ apiKey) = Inr url
          \<longrightarrow> animateImageWithVeo env (Inr op0) getOp fetchObjectURL
                = Some (Inr url, keyActions @ [Sleep 5000, Poll, Sleep 5000, Poll]))
       \<and> ((\<forall>i. \<exists>op. getOp i = Inr op \<and> \<not> op_done op)
          \<longrightarrow> animateImageWithVeo env (Inr op0) getOp fetchObjectURL = None)
       \<and> (getOp 0 = Inl e
          \<longrightarrow> (\<exists>err acts. animateImageWithVeo env (Inr op0) getOp fetchObjectURL
                             = Some (Inl err, keyActions @ [Sleep 5000, Poll] @ acts)
                           \<and> set acts \<subseteq> {OpenSelectKey}))"
proof -
  have key: "getApiKey env = (Inr apiKey, keyActions)"
    using getApiKey_returns_key [OF assms(1-3)] assms(4) by simp
  have one: "animateImageWithVeo env (Inr op0) getOp fetchObjectURL
        = Some (Inr url, keyActions @ [Sleep 5000, Poll, Sleep 5000, Poll])"
    if h: "getOp 0 = Inr op1 \<and> \<not> op_done op1 \<and> getOp 1 = Inr op2 \<and> op_done op2
        \<and> op_response op2 = Some r \<and> generatedVideos r = Some (g # gs)
        \<and> video g = Some v \<and> video_uri v = Some link \<and> link \<noteq> []
        \<and> fetchObjectURL (link @ lit ''&key='' @ apiKey) = Inr url"
  proof -
    have "\<forall>i<1. \<exists>op. getOp (0 + i) = Inr op \<and> \<not> op_done op"
      using h by simp
    moreover have "getOp (0 + 1) = Inr op2" "op_done op2"
      using h by simp_all
    ultimately have "pollLoop env getOp op0 0 keyActions
        = Some (Inr op2, keyActions @ concat (replicate (Suc 1) [Sleep 5000, Poll]))"
      using assms(5) by (intro pollLoop_completes)
    then have loop: "pollLoop env getOp op0 0 keyActions
        = Some (Inr op2, keyActions @ [Sleep 5000, Poll, Sleep 5000, Poll])"
      by (simp add: numeral_2_eq_2)
    have link: "downloadLink op2 = Some link"
      using h by (simp add: downloadLink_def)
    show ?thesis
      using h by (simp add: animateImageWithVeo_def key loop link)
  qed
  have two: "animateImageWithVeo env (Inr op0) getOp fetchObjectURL = None"
    if "\<forall>i. \<exists>op. getOp i = Inr op \<and> \<not> op_done op"
  proof -
    from pollLoop_never_returns [OF assms(5) that]
    have "pollLoop env getOp op0 0 keyActions = None" .
    then show ?thesis
      by (simp add: animateImageWithVeo_def key)
  qed
  have three: "\<exists>err acts. animateImageWithVeo env (Inr op0) getOp fetchObjectURL
          = Some (Inl err, keyActions @ [Sleep 5000, Poll] @ acts) \<and> set acts \<subseteq> {OpenSelectKey}"
    if e: "getOp 0 = Inl e"
  proof -
    have loop: "pollLoop env getOp op0 0 keyActions
        = Some (Inl (fst (pollFailure env e)),
                keyActions @ [Sleep 5000, Poll] @ snd (pollFailure env e))"
      using assms(5) e by (simp add: pollLoop.simps [of env getOp op0])
    have acts: "set (snd (pollFailure env e)) \<subseteq> {OpenSelectKey}"
      by (auto simp: pollFailure_def split: thrown.splits option.splits if_splits)
    have "animateImageWithVeo env (Inr op0) getOp fetchObjectURL
        = Some (Inl (fst (pollFailure env e)),
                keyActions @ [Sleep 5000, Poll] @ snd (pollFailure env e))"
      by (simp add: animateImageWithVeo_def key loop)
    with acts show ?thesis
      by blast
  qed
  from one two three show ?thesis
    by blast
qed

theorem animation_polling_witness:
  "animateImageWithVeo keyPresentExample (Inr pendingExample)
        (\<lambda>i. if i = 0 then Inr pendingExample else Inr finishedExample)
        (\<lambda>url. Inr (lit ''blob:'' @ url))
      = Some (Inr (lit ''blob:https://v/1?alt=media&key=k''),
              [Sleep 5000, Poll, Sleep 5000, Poll])
   \<and> animateImageWithVeo keySelectedExample (Inr pendingExample)
        (\<lambda>i. if i = 0 then Inr pendingExample else Inr finishedExample)
        (\<lambda>url. Inr (lit ''blob:'' @ url))
      = Some (Inr (lit ''blob:https://v/1?alt=media&key=k''),
              [HasSelectedApiKey, OpenSelectKey, Sleep 5000, Poll, Sleep 5000, Poll])
   \<and> animateImageWithVeo keyPresentExample (Inr pendingExample)
        (\<lambda>i. Inr pendingExample) (\<lambda>url. Inr (lit ''blob:'' @ url))
      = None
   \<and> (\<exists>err acts. animateImageWithVeo keyPresentExample (Inr pendingExample)
          (\<lambda>i. Inl (ThrownValue (Some (lit ''Requested entity was not found.''))))
          (\<lambda>url. Inr (lit ''blob:'' @ url))
        = Some (Inl err, [Sleep 5000, Poll] @ acts) \<and> set acts \<subseteq> {OpenSelectKey})"
proof -
  have k: "key_at_second_test keyPresentExample = Some (lit ''k'')" "lit ''k'' \<noteq> []"
      "\<forall>a. window_aistudio keyPresentExample = Some a
           \<longrightarrow> (\<exists>b. hasSelectedApiKey a = Inr b) \<and> openSelectKey a = None"
      "[] = (if key_at_first_test keyPresentExample = None
                \<or> key_at_first_test keyPresentExample = Some []
             then (case window_aistudio keyPresentExample of
                     None \<Rightarrow> []
                   | Some a \<Rightarrow> if hasSelectedApiKey a = Inr True then [HasSelectedApiKey]
                               else [HasSelectedApiKey, OpenSelectKey])
             else [])"
    by (auto simp: keyPresentExample_def lit_def)
  have s: "key_at_second_test keySelectedExample = Some (lit ''k'')" "lit ''k'' \<noteq> []"
      "\<forall>a. window_aistudio keySelectedExample = Some a
           \<longrightarrow> (\<exists>b. hasSelectedApiKey a = Inr b) \<and> openSelectKey a = None"
      "[HasSelectedApiKey, OpenSelectKey]
         = (if key_at_first_test keySelectedExample = None
               \<or> key_at_first_test keySelectedExample = Some []
            then (case window_aistudio keySelectedExample of
                    None \<Rightarrow> []
                  | Some a \<Rightarrow> if hasSelectedApiKey a = Inr True then [HasSelectedApiKey]
                              else [HasSelectedApiKey, OpenSelectKey])
            else [])"
    by (auto simp: keySelectedExample_def lit_def)
  have p: "\<not> op_done pendingExample"
    by (simp add: pendingExample_def)
  let ?fetch = "\<lambda>url. Inr (lit ''blob:'' @ url) :: thrown + jsstring"
  let ?first = "\<lparr>video = Some \<lparr>video_uri = Some (lit ''https://v/1?alt=media'')\<rparr>\<rparr>"
  let ?rest = "[\<lparr>video = Some \<lparr>video_uri = Some (lit ''https://v/2?alt=media'')\<rparr>\<rparr>]"
  have f: "op_done finishedExample"
      "op_response finishedExample = Some \<lparr>generatedVideos = Some (?first # ?rest)\<rparr>"
    by (simp_all add: finishedExample_def)
  note w1 = animation_polling [OF k p,
      of "\<lambda>i. if i = 0 then Inr pendingExample else Inr finishedExample"
      pendingExample finishedExample "\<lparr>generatedVideos = Some (?first # ?rest)\<rparr>" ?first ?rest
      "\<lparr>video_uri = Some (lit ''https://v/1?alt=media'')\<rparr>" "lit ''https://v/1?alt=media''"
      ?fetch "lit ''blob:https://v/1?alt=media&key=k''"]
  note w2 = animation_polling [OF s p,
      of "\<lambda>i. if i = 0 then Inr pendingExample else Inr finishedExample"
      pendingExample finishedExample "\<lparr>generatedVideos = Some (?first # ?rest)\<rparr>" ?first ?rest
      "\<lparr>video_uri = Some (lit ''https://v/1?alt=media'')\<rparr>" "lit ''https://v/1?alt=media''"
      ?fetch "lit ''blob:https://v/1?alt=media&key=k''"]
  note w3 = animation_polling [OF k p, of "\<lambda>i. Inr pendingExample"
      pendingExample finishedExample "\<lparr>generatedVideos = Some (?first # ?rest)\<rparr>" ?first ?rest
      "\<lparr>video_uri = Some (lit ''https://v/1?alt=media'')\<rparr>" "lit ''https://v/1?alt=media''"
      ?fetch "lit ''blob:https://v/1?alt=media&key=k''"]
  note w4 = animation_polling [OF k p,
      of "\<lambda>i. Inl (ThrownValue (Some (lit ''Requested entity was not found.'')))"
      pendingExample finishedExample "\<lparr>generatedVideos = Some (?first # ?rest)\<rparr>" ?first ?rest
      "\<lparr>video_uri = Some (lit ''https://v/1?alt=media'')\<rparr>" "lit ''https://v/1?alt=media''"
      ?fetch "lit ''blob:https://v/1?alt=media&key=k''"
      "ThrownValue (Some (lit ''Requested entity was not found.''))"]
  have a: "animateImageWithVeo keyPresentExample (Inr pendingExample)
        (\<lambda>i. if i = 0 then Inr pendingExample else Inr finishedExample) ?fetch
      = Some (Inr (lit ''blob:https://v/1?alt=media&key=k''),
              [Sleep 5000, Poll, Sleep 5000, Poll])"
    using w1 p f by (simp add: lit_def)
  have b: "animateImageWithVeo keySelectedExample (Inr pendingExample)
        (\<lambda>i. if i = 0 then Inr pendingExample else Inr finishedExample) ?fetch
      = Some (Inr (lit ''blob:https://v/1?alt=media&key=k''),
              [HasSelectedApiKey, OpenSelectKey, Sleep 5000, Poll, Sleep 5000, Poll])"
    using w2 p f by (simp add: lit_def)
  have c: "animateImageWithVeo keyPresentExample (Inr pendingExample)
        (\<lambda>i. Inr pendingExample) ?fetch = None"
    using w3 p by simp
  have d: "\<exists>err acts. animateImageWithVeo keyPresentExample (Inr pendingExample)
          (\<lambda>i. Inl (ThrownValue (Some (lit ''Requested entity was not found.'')))) ?fetch
        = Some (Inl err, [Sleep 5000, Poll] @ acts) \<and> set acts \<subseteq> {OpenSelectKey}"
    using w4 by simp
  from a b c d show ?thesis
    by blast
qed

text \<open>
  The poll rejected with the message of the source's test: the dialog is opened and the
  invalid-key error thrown. The poll rejected with \<open>null\<close> or \<open>undefined\<close>: a TypeError.
\<close>

lemma pollFailure_examples:
  "pollFailure keyPresentExample (ThrownValue (Some (lit ''Requested entity was not found.'')))
     = (Error invalidKeyMessage, [OpenSelectKey])
   \<and> pollFailure keyPresentExample ThrownNullish = (TypeError, [])"
  by (simp add: pollFailure_def keyPresentExample_def lit_def)

section \<open>Properties of the ImageUploader\<close>

lemma stripPrefix_iff: "stripPrefix p s = Some r \<longleftrightarrow> s = p @ r"
  by (induction p s rule: stripPrefix.induct) auto

lemma base64_marker: "lit '';base64,'' = 0x3B # lit ''base64,''"
  by (simp add: lit_def)

lemma matchDataUrl_iff:
  "matchDataUrl s = Some (m, b) \<longleftrightarrow>
     (\<exists>w. s = lit ''data:image/'' @ w @ lit '';base64,'' @ b \<and> w \<noteq> []
          \<and> (\<forall>c\<in>set w. isWordChar c) \<and> m = lit ''image/'' @ w
          \<and> (\<forall>c\<in>set b. \<not> isLineTerminator c))"
proof
  assume "matchDataUrl s = Some (m, b)"
  then obtain r where r: "stripPrefix (lit ''data:image/'') s = Some r"
      "takeWhile isWordChar r \<noteq> []"
      "stripPrefix (lit '';base64,'') (dropWhile isWordChar r) = Some b"
      "\<not> list_ex isLineTerminator b" "m = lit ''image/'' @ takeWhile isWordChar r"
    by (auto simp: matchDataUrl_def Let_def split: option.splits if_splits)
  have "dropWhile isWordChar r = lit '';base64,'' @ b"
    using r(3) by (simp add: stripPrefix_iff)
  then have "r = takeWhile isWordChar r @ lit '';base64,'' @ b"
    by (metis takeWhile_dropWhile_id)
  then have "s = lit ''data:image/'' @ takeWhile isWordChar r @ lit '';base64,'' @ b"
    using r(1) by (simp add: stripPrefix_iff)
  moreover have "\<forall>c\<in>set (takeWhile isWordChar r). isWordChar c"
    by (auto dest: set_takeWhileD)
  ultimately show "\<exists>w. s = lit ''data:image/'' @ w @ lit '';base64,'' @ b \<and> w \<noteq> []
          \<and> (\<forall>c\<in>set w. isWordChar c) \<and> m = lit ''image/'' @ w
          \<and> (\<forall>c\<in>set b. \<not> isLineTerminator c)"
    using r(2,4,5) by (auto simp: list_ex_iff)
next
  assume "\<exists>w. s = lit ''data:image/'' @ w @ lit '';base64,'' @ b \<and> w \<noteq> []
          \<and> (\<forall>c\<in>set w. isWordChar c) \<and> m = lit ''image/'' @ w
          \<and> (\<forall>c\<in>set b. \<not> isLineTerminator c)"
  then obtain w where w: "s = lit ''data:image/'' @ w @ lit '';base64,'' @ b" "w \<noteq> []"
      "\<forall>c\<in>set w. isWordChar c" "m = lit ''image/'' @ w" "\<forall>c\<in>set b. \<not> isLineTerminator c"
    by blast
  have semi: "\<not> isWordChar 0x3B"
    by (simp add: isWordChar_def)
  have p: "stripPrefix (lit ''data:image/'') s = Some (w @ lit '';base64,'' @ b)"
    using w(1) by (simp add: stripPrefix_iff)
  have t: "takeWhile isWordChar (w @ lit '';base64,'' @ b) = w"
    using w(3) semi by (simp add: takeWhile_append2 base64_marker)
  have d: "dropWhile isWordChar (w @ lit '';base64,'' @ b) = lit '';base64,'' @ b"
    using w(3) semi by (simp add: dropWhile_append2 base64_marker)
  have q: "stripPrefix (lit '';base64,'') (lit '';base64,'' @ b) = Some b"
    by (simp add: stripPrefix_iff)
  show "matchDataUrl s = Some (m, b)"
    using w(2,4,5) by (simp add: matchDataUrl_def p t d q list_ex_iff)
qed

text \<open>
  What \<open>onloadend\<close> accepts, in terms of the text read: \<open>data:image/\<close>, a non-empty
  word, \<open>;base64,\<close> and non-empty data without line terminator.
\<close>

lemma payload_iff_image_data_url:
  "handleFileChange reader (Some file) = OnImageSelect payload \<longleftrightarrow>
     (\<exists>w. reader file = Some (lit ''data:image/'' @ w @ lit '';base64,'' @ base64 payload)
          \<and> w \<noteq> [] \<and> (\<forall>c\<in>set w. isWordChar c) \<and> mimeType payload = lit ''image/'' @ w
          \<and> base64 payload \<noteq> [] \<and> (\<forall>c\<in>set (base64 payload). \<not> isLineTerminator c))"
proof (cases "reader file")
  case None
  then show ?thesis by (simp add: handleFileChange_def onloadend_def)
next
  case (Some s)
  show ?thesis
  proof (cases "matchDataUrl s")
    case None
    then have "\<not> (\<exists>w. s = lit ''data:image/'' @ w @ lit '';base64,'' @ base64 payload \<and> w \<noteq> []
          \<and> (\<forall>c\<in>set w. isWordChar c) \<and> mimeType payload = lit ''image/'' @ w
          \<and> (\<forall>c\<in>set (base64 payload). \<not> isLineTerminator c))"
      using matchDataUrl_iff [of s "mimeType payload" "base64 payload"] by simp
    then show ?thesis
      using Some None by (auto simp: handleFileChange_def onloadend_def)
  next
    case (Some mb)
    obtain m b where mb: "mb = (m, b)" by (cases mb)
    from Some mb have ms: "matchDataUrl s = Some (m, b)" by simp
    from ms [unfolded matchDataUrl_iff] obtain w where
      w: "s = lit ''data:image/'' @ w @ lit '';base64,'' @ b" "w \<noteq> []"
        "\<forall>c\<in>set w. isWordChar c" "m = lit ''image/'' @ w" "\<forall>c\<in>set b. \<not> isLineTerminator c"
      by blast
    have mne: "m \<noteq> []" using w(4) by (simp add: lit_def)
    have res: "handleFileChange reader (Some file)
        = (if b \<noteq> [] then OnImageSelect \<lparr>base64 = b, mimeType = m\<rparr> else Alert invalidFormatMessage)"
      using \<open>reader file = Some s\<close> ms mne by (simp add: handleFileChange_def onloadend_def)
    show ?thesis
    proof
      assume "handleFileChange reader (Some file) = OnImageSelect payload"
      with res have "b \<noteq> []" "payload = \<lparr>base64 = b, mimeType = m\<rparr>"
        by (auto split: if_splits)
      then show "\<exists>w. reader file = Some (lit ''data:image/'' @ w @ lit '';base64,'' @ base64 payload)
          \<and> w \<noteq> [] \<and> (\<forall>c\<in>set w. isWordChar c) \<and> mimeType payload = lit ''image/'' @ w
          \<and> base64 payload \<noteq> [] \<and> (\<forall>c\<in>set (base64 payload). \<not> isLineTerminator c)"
        using w \<open>reader file = Some s\<close> by auto
    next
      assume "\<exists>w. reader file = Some (lit ''data:image/'' @ w @ lit '';base64,'' @ base64 payload)
          \<and> w \<noteq> [] \<and> (\<forall>c\<in>set w. isWordChar c) \<and> mimeType payload = lit ''image/'' @ w
          \<and> base64 payload \<noteq> [] \<and> (\<forall>c\<in>set (base64 payload). \<not> isLineTerminator c)"
      then obtain w' where w': "s = lit ''data:image/'' @ w' @ lit '';base64,'' @ base64 payload"
          "w' \<noteq> []" "\<forall>c\<in>set w'. isWordChar c" "mimeType payload = lit ''image/'' @ w'"
          "base64 payload \<noteq> []" "\<forall>c\<in>set (base64 payload). \<not> isLineTerminator c"
        using \<open>reader file = Some s\<close> by auto
      then have "matchDataUrl s = Some (mimeType payload, base64 payload)"
        unfolding matchDataUrl_iff by blast
      with ms have "m = mimeType payload" "b = base64 payload" by simp_all
      with res w'(5) show "handleFileChange reader (Some file) = OnImageSelect payload"
        by simp
    qed
  qed
qed

lemma semicolon_not_word: "\<not> isWordChar 0x3B"
  by (simp add: isWordChar_def)

lemma no_semicolon_in_image_type:
  assumes "\<forall>c\<in>set w. isWordChar c"
  shows "0x3B \<notin> set (lit ''image/'' @ w)"
  using assms semicolon_not_word by (auto simp: lit_def)

lemma split_at_first:
  assumes "x \<notin> set xs" "x \<notin> set xs'" "xs @ x # ys = xs' @ x # ys'"
  shows "xs = xs' \<and> ys = ys'"
  using assms
proof (induction xs arbitrary: xs')
  case Nil
  then show ?case by (cases xs') auto
next
  case (Cons a xs)
  then show ?case by (cases xs') auto
qed

lemma onloadend_matched:
  assumes "matchDataUrl s = Some (m, b)"
  shows "onloadend (Some s)
           = (if b \<noteq> [] then OnImageSelect \<lparr>base64 = b, mimeType = m\<rparr>
              else Alert invalidFormatMessage)"
proof -
  from assms [unfolded matchDataUrl_iff] have "m \<noteq> []"
    by (auto simp: lit_def)
  with assms show ?thesis
    by (simp add: onloadend_def)
qed

text \<open>
  Claim C4, as the handler decides it. For a file whose content type holds no semicolon
  (a MIME type and subtype), read with success: a payload is produced exactly when the
  type is \<open>image/\<close> followed by a non-empty word of letters, digits and underscores and
  the file's data is not empty (and holds no line terminator, which base64 never does);
  the payload holds that type and that data. Every other file gets the invalid-format
  alert and no payload. The types listed in the \<open>accept\<close> attribute play no part.
\<close>

theorem upload_accepted_iff_image_type:
  assumes "0x3B \<notin> set (file_type file)"
  shows "handleFileChange readAsDataURL (Some file)
     = (if (\<exists>w. w \<noteq> [] \<and> (\<forall>c\<in>set w. isWordChar c) \<and> file_type file = lit ''image/'' @ w)
           \<and> file_base64 file \<noteq> [] \<and> (\<forall>c\<in>set (file_base64 file). \<not> isLineTerminator c)
        then OnImageSelect \<lparr>base64 = file_base64 file, mimeType = file_type file\<rparr>
        else Alert invalidFormatMessage)"
proof (cases "file_type file = []")
  case True
  have "handleFileChange readAsDataURL (Some file) = Alert invalidFormatMessage"
    by (simp add: handleFileChange_def readAsDataURL_def onloadend_def matchDataUrl_def True lit_def)
  moreover have "\<not> (\<exists>w. w \<noteq> [] \<and> (\<forall>c\<in>set w. isWordChar c) \<and> file_type file = lit ''image/'' @ w)"
    by (simp add: True lit_def)
  ultimately show ?thesis
    by simp
next
  case False
  define t where "t = file_type file"
  define s where "s = lit ''data:'' @ t @ lit '';base64,'' @ file_base64 file"
  have run: "handleFileChange readAsDataURL (Some file) = onloadend (Some s)"
    using False by (simp add: handleFileChange_def readAsDataURL_def s_def t_def)
  have semi_t: "0x3B \<notin> set t"
    using assms by (simp add: t_def)
  show ?thesis
  proof (cases "(\<exists>w. w \<noteq> [] \<and> (\<forall>c\<in>set w. isWordChar c) \<and> t = lit ''image/'' @ w)
      \<and> file_base64 file \<noteq> [] \<and> (\<forall>c\<in>set (file_base64 file). \<not> isLineTerminator c)")
    case True
    then obtain w where w: "w \<noteq> []" "\<forall>c\<in>set w. isWordChar c" "t = lit ''image/'' @ w"
      by blast
    have "s = lit ''data:image/'' @ w @ lit '';base64,'' @ file_base64 file"
      by (simp add: s_def w(3) lit_def)
    then have "matchDataUrl s = Some (t, file_base64 file)"
      unfolding matchDataUrl_iff using w True by blast
    from onloadend_matched [OF this] True
    have "onloadend (Some s) = OnImageSelect \<lparr>base64 = file_base64 file, mimeType = t\<rparr>"
      by simp
    with True run show ?thesis
      unfolding t_def by simp
  next
    case notok: False
    have "onloadend (Some s) = Alert invalidFormatMessage"
    proof (cases "matchDataUrl s")
      case None
      then show ?thesis by (simp add: onloadend_def)
    next
      case (Some mb)
      obtain m b where mb: "mb = (m, b)" by (cases mb)
      with Some have ms: "matchDataUrl s = Some (m, b)" by simp
      from ms [unfolded matchDataUrl_iff] obtain w where
        w: "s = lit ''data:image/'' @ w @ lit '';base64,'' @ b" "w \<noteq> []"
          "\<forall>c\<in>set w. isWordChar c" "m = lit ''image/'' @ w" "\<forall>c\<in>set b. \<not> isLineTerminator c"
        by blast
      have "lit ''data:'' @ t @ lit '';base64,'' @ file_base64 file
          = lit ''data:image/'' @ w @ lit '';base64,'' @ b"
        using w(1) unfolding s_def .
      then have cut: "t @ 0x3B # (lit ''base64,'' @ file_base64 file)
          = (lit ''image/'' @ w) @ 0x3B # (lit ''base64,'' @ b)"
        by (simp add: lit_def)
      from split_at_first [OF semi_t no_semicolon_in_image_type [OF w(3)] cut]
      have eq: "t = lit ''image/'' @ w" "file_base64 file = b"
        by simp_all
      have "b = []"
      proof (rule ccontr)
        assume "b \<noteq> []"
        with eq w(2,3,5) have "(\<exists>w. w \<noteq> [] \<and> (\<forall>c\<in>set w. isWordChar c) \<and> t = lit ''image/'' @ w)
            \<and> file_base64 file \<noteq> [] \<and> (\<forall>c\<in>set (file_base64 file). \<not> isLineTerminator c)"
          by blast
        with notok show False ..
      qed
      with onloadend_matched [OF ms] show ?thesis by simp
    qed
    with notok run show ?thesis
      unfolding t_def by simp
  qed
qed

theorem upload_accepted_iff_image_type_witness:
  "0x3B \<notin> set (file_type pngFileExample)
   \<and> handleFileChange readAsDataURL (Some pngFileExample)
       = OnImageSelect \<lparr>base64 = lit ''iVBORw0KGgo='', mimeType = lit ''image/png''\<rparr>"
proof -
  have n: "0x3B \<notin> set (file_type pngFileExample)"
    by (simp add: pngFileExample_def lit_def)
  have "\<exists>w. w \<noteq> [] \<and> (\<forall>c\<in>set w. isWordChar c) \<and> file_type pngFileExample = lit ''image/'' @ w"
    by (rule exI [of _ "lit ''png''"]) (simp add: pngFileExample_def isWordChar_def lit_def)
  moreover have "file_base64 pngFileExample \<noteq> []"
      "\<forall>c\<in>set (file_base64 pngFileExample). \<not> isLineTerminator c"
    by (simp_all add: pngFileExample_def isLineTerminator_def lit_def)
  ultimately have "handleFileChange readAsDataURL (Some pngFileExample)
      = OnImageSelect \<lparr>base64 = file_base64 pngFileExample, mimeType = file_type pngFileExample\<rparr>"
    using upload_accepted_iff_image_type [OF n] by simp
  then show ?thesis
    using n by (simp add: pngFileExample_def)
qed

text \<open>A GIF file is none of PNG, JPEG, WEBP, and the handler makes a payload of it.\<close>

theorem gif_upload_accepted:
  "handleFileChange readAsDataURL (Some gifFileExample)
     = OnImageSelect \<lparr>base64 = lit ''R0lGODlhAQABAAAAACw='', mimeType = lit ''image/gif''\<rparr>
   \<and> file_type gifFileExample \<notin> set acceptedTypes"
  by (simp add: handleFileChange_def onloadend_def readAsDataURL_def gifFileExample_def
      matchDataUrl_def acceptedTypes_def isWordChar_def isLineTerminator_def lit_def Let_def)

section \<open>Properties of the stores\<close>




















text \<open>
  Claim C7. A value that \<open>JSON.stringify\<close> and \<open>JSON.parse\<close> take back to itself (and that
  is not \<open>undefined\<close>) is read back by the initialiser after it was persisted under the
  same key, whatever the default and whatever was stored before (the empty text is no
  JSON); when nothing is stored under the key, or what is stored does not parse, the
  initialiser yields the default.
\<close>

theorem persistent_state_round_trip:
  "(parse [] = None \<and> v \<noteq> Undefined \<and> parse (stringify v) = Some v
      \<longrightarrow> initialState parse (persist stringify storage key v) key d = v)
   \<and> (storage key = None \<longrightarrow> initialState parse storage key d = d)
   \<and> (storage key = Some s \<and> parse s = None \<longrightarrow> initialState parse storage key d = d)"
  by (auto simp: initialState_def persist_def storedText_def)

theorem persistent_state_round_trip_witness:
  "parseExample [] = None
   \<and> Str (lit ''16:9'') \<noteq> Undefined
   \<and> parseExample (stringifyExample (Str (lit ''16:9''))) = Some (Str (lit ''16:9''))
   \<and> initialState parseExample
        (persist stringifyExample Map.empty (lit ''videoAnimator-aspectRatio'') (Str (lit ''16:9'')))
        (lit ''videoAnimator-aspectRatio'') (Str (lit ''9:16''))
      = Str (lit ''16:9'')
   \<and> initialState parseExample Map.empty (lit ''videoAnimator-aspectRatio'') (Str (lit ''9:16''))
      = Str (lit ''9:16'')
   \<and> parseExample (lit ''{broken'') = None
   \<and> initialState parseExample [lit ''videoAnimator-aspectRatio'' \<mapsto> lit ''{broken'']
        (lit ''videoAnimator-aspectRatio'') (Str (lit ''9:16''))
      = Str (lit ''9:16'')"
proof -
  have a: "parseExample [] = None"
    "parseExample (stringifyExample (Str (lit ''16:9''))) = Some (Str (lit ''16:9''))"
    "parseExample (lit ''{broken'') = None"
    by (simp_all add: parseExample_def stringifyExample_def savedHistoryExample_def lit_def)
  note r = persistent_state_round_trip [of parseExample "Str (lit ''16:9'')" stringifyExample
      Map.empty "lit ''videoAnimator-aspectRatio''" "Str (lit ''9:16'')" "lit ''{broken''"]
  note r' = persistent_state_round_trip [of parseExample "Str (lit ''16:9'')" stringifyExample
      "[lit ''videoAnimator-aspectRatio'' \<mapsto> lit ''{broken'']"
      "lit ''videoAnimator-aspectRatio''" "Str (lit ''9:16'')" "lit ''{broken''"]
  show ?thesis
    using a r r' by simp
qed

end
